theory Spec2Isabelle
  imports Complex_Main "HOL-Library.Sublist"
begin

section \<open>Python values and exceptions\<close>

text \<open>
  A float read by \<^verbatim>\<open>json.load\<close> is kept by its value; the parser also accepts the
  literals \<^verbatim>\<open>NaN\<close>, \<^verbatim>\<open>Infinity\<close> and \<^verbatim>\<open>-Infinity\<close>.
\<close>

datatype pyfloat = Finite rat | PosInf | NegInf | NaN

text \<open>
  The result of \<^verbatim>\<open>json.load\<close>: \<^verbatim>\<open>None\<close>, \<^verbatim>\<open>bool\<close>, \<^verbatim>\<open>int\<close>, \<^verbatim>\<open>float\<close>,
  \<^verbatim>\<open>str\<close>, \<^verbatim>\<open>list\<close> and \<^verbatim>\<open>dict\<close>. A dict is given by its items in insertion order
  (its keys are distinct); \<open>JNull\<close> is Python's \<^verbatim>\<open>None\<close>. A string of the cookie file is
  given by its UTF-8 encoding, as the file holds it: an ASCII character is one byte, and
  a character beyond ASCII is a lead byte with the continuation bytes that follow it.
\<close>

datatype json =
    JNull
  | JBool bool
  | JInt int
  | JFloat pyfloat
  | JStr string
  | JArr "json list"
  | JObj "(string \<times> json) list"

text \<open>
  The exception classes that the modelled functions raise, catch or receive from their
  collaborators. \<open>OSError\<close> is also Python's \<^verbatim>\<open>IOError\<close>; \<open>RequestException\<close> and
  \<open>HTTPError\<close> are those of \<^verbatim>\<open>requests.exceptions\<close>. An exception of a class that is not
  listed is given by the nearest listed class it derives from (a \<^verbatim>\<open>PermissionError\<close> by
  \<open>OSError\<close>), and by \<open>OtherError\<close> when that would be \<^verbatim>\<open>Exception\<close> itself. Exceptions
  outside \<^verbatim>\<open>Exception\<close> (a keyboard interrupt) are not modelled.
\<close>

datatype exc_class =
    Exception
  | StopIteration
  | KeyError
  | TypeError
  | AttributeError
  | ValueError
  | JSONDecodeError
  | OSError
  | FileNotFoundError
  | UnboundLocalError
  | RequestException
  | HTTPError
  | CurlError
  | OtherError

text \<open>An exception object: its class and the text \<^verbatim>\<open>str(e)\<close>.\<close>

datatype py_exc = PyExc exc_class string

fun exc_cls :: "py_exc \<Rightarrow> exc_class" where
  "exc_cls (PyExc c m) = c"

fun exc_msg :: "py_exc \<Rightarrow> string" where
  "exc_msg (PyExc c m) = m"

text \<open>\<open>is_subclass c d\<close>: class \<open>c\<close> is \<open>d\<close> or derives from it (\<^verbatim>\<open>issubclass(c, d)\<close>).\<close>

definition is_subclass :: "exc_class \<Rightarrow> exc_class \<Rightarrow> bool" where
  "is_subclass c d =
     (c = d \<or> d = Exception \<or>
      (c, d) \<in> {(JSONDecodeError, ValueError), (FileNotFoundError, OSError),
                 (RequestException, OSError), (HTTPError, RequestException),
                 (HTTPError, OSError)})"

text \<open>Truth value of an object (\<^verbatim>\<open>bool(v)\<close>, as \<^verbatim>\<open>not v\<close> tests it).\<close>

fun truthy :: "json \<Rightarrow> bool" where
  "truthy JNull = False"
| "truthy (JBool b) = b"
| "truthy (JInt i) = (i \<noteq> 0)"
| "truthy (JFloat f) = (f \<noteq> Finite 0)"
| "truthy (JStr s) = (s \<noteq> [])"
| "truthy (JArr xs) = (xs \<noteq> [])"
| "truthy (JObj kv) = (kv \<noteq> [])"

text \<open>
  The characters of a string in UTF-8: each byte that is not a continuation byte
  (\<^verbatim>\<open>10xxxxxx\<close>) starts a character, which takes the continuation bytes after it.
\<close>

definition is_ascii :: "char \<Rightarrow> bool" where
  "is_ascii c = (\<not> digit7 c)"

definition is_continuation :: "char \<Rightarrow> bool" where
  "is_continuation c = (digit7 c \<and> \<not> digit6 c)"

function utf8_chars :: "string \<Rightarrow> string list" where
  "utf8_chars [] = []"
| "utf8_chars (c # cs) =
     (c # takeWhile is_continuation cs) # utf8_chars (dropWhile is_continuation cs)"
  by pat_completeness auto
termination
  by (relation "measure length") (auto simp: length_dropWhile_le le_imp_less_Suc)

text \<open>
  \<^verbatim>\<open>str.upper()\<close> maps every character to its full upper-case mapping, one character
  at a time. On ASCII that is \<^verbatim>\<open>a\<close>..\<^verbatim>\<open>z\<close> to \<^verbatim>\<open>A\<close>..\<^verbatim>\<open>Z\<close>. Beyond ASCII it is
  the table of the Unicode database that the interpreter carries, which is a parameter
  here: \<open>unicode_upper ch\<close> is the (encoded) upper-case mapping of the encoded character
  \<open>ch\<close>. That table maps U+017F (long s) to \<^verbatim>\<open>S\<close> and U+0131 (dotless i) to \<^verbatim>\<open>I\<close>,
  so names with these characters can upper-case to an ASCII name.
\<close>

definition upper_char :: "char \<Rightarrow> char" where
  "upper_char c =
     (case map_of (zip ''abcdefghijklmnopqrstuvwxyz'' ''ABCDEFGHIJKLMNOPQRSTUVWXYZ'') c of
        Some u \<Rightarrow> u
      | None \<Rightarrow> c)"

definition upper_full :: "(string \<Rightarrow> string) \<Rightarrow> string \<Rightarrow> string" where
  "upper_full unicode_upper ch =
     (case ch of
        [c] \<Rightarrow> if is_ascii c then [upper_char c] else unicode_upper ch
      | _ \<Rightarrow> unicode_upper ch)"

definition py_upper :: "(string \<Rightarrow> string) \<Rightarrow> string \<Rightarrow> string" where
  "py_upper unicode_upper s = concat (map (upper_full unicode_upper) (utf8_chars s))"

text \<open>
  \<^verbatim>\<open>obj[key]\<close> with a string key. Only a dict has string keys: a missing key is a
  \<^verbatim>\<open>KeyError\<close> whose text is the key's \<^verbatim>\<open>repr\<close>, and every other object raises
  \<^verbatim>\<open>TypeError\<close> (the texts are CPython's and play no role below).
\<close>

fun py_subscript :: "json \<Rightarrow> string \<Rightarrow> py_exc + json" where
  "py_subscript (JObj kv) k =
     (case map_of kv k of
        None \<Rightarrow> Inl (PyExc KeyError ([CHR 0x27] @ k @ [CHR 0x27]))
      | Some v \<Rightarrow> Inr v)"
| "py_subscript (JStr s) k = Inl (PyExc TypeError ''string indices must be integers'')"
| "py_subscript (JArr xs) k = Inl (PyExc TypeError ''list indices must be integers or slices, not str'')"
| "py_subscript v k = Inl (PyExc TypeError ''object is not subscriptable'')"

text \<open>\<^verbatim>\<open>v.upper()\<close>: only a \<^verbatim>\<open>str\<close> has the method.\<close>

fun py_upper_method :: "(string \<Rightarrow> string) \<Rightarrow> json \<Rightarrow> py_exc + string" where
  "py_upper_method unicode_upper (JStr s) = Inr (py_upper unicode_upper s)"
| "py_upper_method unicode_upper v = Inl (PyExc AttributeError ''object has no attribute upper'')"

text \<open>
  \<^verbatim>\<open>iter(v)\<close>, as a \<^verbatim>\<open>for\<close> clause takes it: a list gives its elements, a dict its
  keys, a string its characters; the other values are not iterable.
\<close>

fun py_iter :: "json \<Rightarrow> py_exc + json list" where
  "py_iter (JArr xs) = Inr xs"
| "py_iter (JObj kv) = Inr (map (\<lambda>(k, v). JStr k) kv)"
| "py_iter (JStr s) = Inr (map JStr (utf8_chars s))"
| "py_iter v = Inl (PyExc TypeError ''object is not iterable'')"

section \<open>utils.load\_cookies\<close>

text \<open>
  \<^verbatim>\<open>next((item['value'] for item in cookies if item['name'].upper() == target), None)\<close>.
  The generator is lazy: it tests the items in order, stops at the first one whose
  upper-cased name is the target and yields that item's value; an exception raised while
  an item is tested or its value is read leaves the generator. When the items run out,
  \<^verbatim>\<open>next\<close> returns its default \<^verbatim>\<open>None\<close>.
\<close>

fun next_value :: "(string \<Rightarrow> string) \<Rightarrow> string \<Rightarrow> json list \<Rightarrow> py_exc + json" where
  "next_value unicode_upper target [] = Inr JNull"
| "next_value unicode_upper target (item # rest) =
     (case py_subscript item ''name'' of
        Inl e \<Rightarrow> Inl e
      | Inr n \<Rightarrow>
          (case py_upper_method unicode_upper n of
             Inl e \<Rightarrow> Inl e
           | Inr u \<Rightarrow>
               if u = target then py_subscript item ''value''
               else next_value unicode_upper target rest))"

text \<open>
  The body of the \<^verbatim>\<open>try\<close> block. \<open>read_json path\<close> is the outcome of opening the file
  and of \<^verbatim>\<open>json.load\<close> on it: the parsed value, or the exception either of them raised;
  \<open>unicode_upper\<close> is the case table that \<^verbatim>\<open>upper()\<close> uses beyond ASCII.
\<close>

definition load_cookies_try :: "(string \<Rightarrow> string) \<Rightarrow> (string \<Rightarrow> py_exc + json) \<Rightarrow> string \<Rightarrow> py_exc + (json \<times> json)" where
  "load_cookies_try unicode_upper read_json cookie_path =
     (case read_json cookie_path of
        Inl e \<Rightarrow> Inl e
      | Inr cookies \<Rightarrow>
          (case py_iter cookies of
             Inl e \<Rightarrow> Inl e
           | Inr items1 \<Rightarrow>
               (case next_value unicode_upper ''__SECURE-1PSID'' items1 of
                  Inl e \<Rightarrow> Inl e
                | Inr session_auth1 \<Rightarrow>
                    (case py_iter cookies of
                       Inl e \<Rightarrow> Inl e
                     | Inr items2 \<Rightarrow>
                         (case next_value unicode_upper ''__SECURE-1PSIDTS'' items2 of
                            Inl e \<Rightarrow> Inl e
                          | Inr session_auth2 \<Rightarrow>
                              if \<not> truthy session_auth1 \<or> \<not> truthy session_auth2
                              then Inl (PyExc StopIteration
                                ''Required cookies (__Secure-1PSID or __Secure-1PSIDTS) not found.'')
                              else Inr (session_auth1, session_auth2))))))"

text \<open>The \<^verbatim>\<open>except\<close> clauses, in the order of the source; each raises a plain \<^verbatim>\<open>Exception\<close>.\<close>

definition load_cookies_except :: "string \<Rightarrow> py_exc \<Rightarrow> py_exc" where
  "load_cookies_except cookie_path e =
     (if is_subclass (exc_cls e) FileNotFoundError
        then PyExc Exception (''Cookie file not found at path: '' @ cookie_path)
      else if is_subclass (exc_cls e) JSONDecodeError
        then PyExc Exception ''Invalid JSON format in the cookie file.''
      else if is_subclass (exc_cls e) StopIteration
        then PyExc Exception (exc_msg e @ '' Check the cookie file format and content.'')
      else PyExc Exception (''An unexpected error occurred while loading cookies: '' @ exc_msg e))"

definition load_cookies :: "(string \<Rightarrow> string) \<Rightarrow> (string \<Rightarrow> py_exc + json) \<Rightarrow> string \<Rightarrow> py_exc + (json \<times> json)" where
  "load_cookies unicode_upper read_json cookie_path =
     (case load_cookies_try unicode_upper read_json cookie_path of
        Inl e \<Rightarrow> Inl (load_cookies_except cookie_path e)
      | Inr r \<Rightarrow> Inr r)"


text \<open>
  What the properties of \<open>load_cookies\<close> speak about: a cookie entry is a dict with a
  string under \<^verbatim>\<open>name\<close> and some value under \<^verbatim>\<open>value\<close>; an entry is named \<open>target\<close>
  when its upper-cased name is \<open>target\<close>, which is the comparison of the source, under
  the same case table.
\<close>

definition entry_name :: "json \<Rightarrow> string option" where
  "entry_name item =
     (case item of
        JObj kv \<Rightarrow> (case map_of kv ''name'' of Some (JStr n) \<Rightarrow> Some n | _ \<Rightarrow> None)
      | _ \<Rightarrow> None)"

definition entry_value :: "json \<Rightarrow> json option" where
  "entry_value item = (case item of JObj kv \<Rightarrow> map_of kv ''value'' | _ \<Rightarrow> None)"

definition well_formed :: "json \<Rightarrow> bool" where
  "well_formed item = (entry_name item \<noteq> None \<and> entry_value item \<noteq> None)"

definition named :: "(string \<Rightarrow> string) \<Rightarrow> string \<Rightarrow> json \<Rightarrow> bool" where
  "named unicode_upper target item =
     (case entry_name item of
        Some n \<Rightarrow> py_upper unicode_upper n = target
      | None \<Rightarrow> False)"

text \<open>The value of the earliest entry of the list that is named \<open>target\<close>.\<close>

definition earliest_value :: "(string \<Rightarrow> string) \<Rightarrow> string \<Rightarrow> json list \<Rightarrow> json option" where
  "earliest_value unicode_upper target items =
     (case find (named unicode_upper target) items of
        None \<Rightarrow> None
      | Some item \<Rightarrow> entry_value item)"

text \<open>Some entry of the list is named \<open>target\<close> and carries a non-empty value.\<close>

definition has_credential :: "(string \<Rightarrow> string) \<Rightarrow> string \<Rightarrow> json list \<Rightarrow> bool" where
  "has_credential unicode_upper target items =
     list_ex (\<lambda>item. named unicode_upper target item \<and>
                (case entry_value item of Some v \<Rightarrow> truthy v | None \<Rightarrow> False)) items"

text \<open>The four messages that \<open>load_cookies\<close> gives to the exception it raises.\<close>

definition descriptive :: "string \<Rightarrow> string \<Rightarrow> bool" where
  "descriptive cookie_path m =
     (m = ''Cookie file not found at path: '' @ cookie_path \<or>
      m = ''Invalid JSON format in the cookie file.'' \<or>
      suffix '' Check the cookie file format and content.'' m \<or>
      prefix ''An unexpected error occurred while loading cookies: '' m)"

section \<open>enums\<close>

datatype Endpoint = Endpoint_INIT | Endpoint_GENERATE | Endpoint_ROTATE_COOKIES | Endpoint_UPLOAD

fun Endpoint_value :: "Endpoint \<Rightarrow> string" where
  "Endpoint_value Endpoint_INIT = ''https://gemini.google.com/app''"
| "Endpoint_value Endpoint_GENERATE =
     ''https://gemini.google.com/_/BardChatUi/data/assistant.lamda.BardFrontendService/StreamGenerate''"
| "Endpoint_value Endpoint_ROTATE_COOKIES = ''https://accounts.google.com/RotateCookies''"
| "Endpoint_value Endpoint_UPLOAD = ''https://content-push.googleapis.com/upload''"

datatype Headers = Headers_GEMINI | Headers_ROTATE_COOKIES | Headers_UPLOAD

text \<open>A header dict is the list of its items; \<open>map_of\<close> looks a header up.\<close>

fun Headers_value :: "Headers \<Rightarrow> (string \<times> string) list" where
  "Headers_value Headers_GEMINI =
     [(''Content-Type'', ''application/x-www-form-urlencoded;charset=utf-8''),
      (''Host'', ''gemini.google.com''),
      (''Origin'', ''https://gemini.google.com''),
      (''Referer'', ''https://gemini.google.com/''),
      (''X-Same-Domain'', ''1'')]"
| "Headers_value Headers_ROTATE_COOKIES = [(''Content-Type'', ''application/json'')]"
| "Headers_value Headers_UPLOAD = [(''Push-ID'', ''feeds/mcudyrk2a4khkz'')]"

text \<open>
  The media type that a \<^verbatim>\<open>Content-Type\<close> value declares: the text before the first
  \<^verbatim>\<open>;\<close>, where the parameters (\<^verbatim>\<open>charset\<close>) begin.
\<close>

definition media_type :: "string \<Rightarrow> string" where
  "media_type v = takeWhile (\<lambda>c. c \<noteq> CHR '';'') v"

datatype Model =
    UNSPECIFIED
  | G_2_0_FLASH
  | G_2_0_FLASH_THINKING
  | G_2_5_FLASH
  | G_2_5_PRO
  | G_2_0_EXP_ADVANCED
  | G_2_5_EXP_ADVANCED

text \<open>The tuple each member is defined with: name, header, advanced_only.\<close>

fun Model_value :: "Model \<Rightarrow> string \<times> (string \<times> string) list \<times> bool" where
  "Model_value UNSPECIFIED = (''unspecified'', [], False)"
| "Model_value G_2_0_FLASH =
     (''gemini-2.0-flash'',
      [(''x-goog-ext-525001261-jspb'', ''[1,null,null,null,\"f299729663a2343f\"]'')], False)"
| "Model_value G_2_0_FLASH_THINKING =
     (''gemini-2.0-flash-thinking'',
      [(''x-goog-ext-525001261-jspb'', ''[null,null,null,null,\"7ca48d02d802f20a\"]'')], False)"
| "Model_value G_2_5_FLASH =
     (''gemini-2.5-flash'',
      [(''x-goog-ext-525001261-jspb'', ''[1,null,null,null,\"35609594dbe934d8\"]'')], False)"
| "Model_value G_2_5_PRO =
     (''gemini-2.5-pro'',
      [(''x-goog-ext-525001261-jspb'', ''[1,null,null,null,\"2525e3954d185b3c\"]'')], False)"
| "Model_value G_2_0_EXP_ADVANCED =
     (''gemini-2.0-exp-advanced'',
      [(''x-goog-ext-525001261-jspb'', ''[null,null,null,null,\"b1e46a6037e6aa9f\"]'')], True)"
| "Model_value G_2_5_EXP_ADVANCED =
     (''gemini-2.5-exp-advanced'',
      [(''x-goog-ext-525001261-jspb'', ''[null,null,null,null,\"203e6bb81620bcfe\"]'')], True)"

definition model_name :: "Model \<Rightarrow> string" where
  "model_name m = fst (Model_value m)"

definition model_header :: "Model \<Rightarrow> (string \<times> string) list" where
  "model_header m = fst (snd (Model_value m))"

definition advanced_only :: "Model \<Rightarrow> bool" where
  "advanced_only m = snd (snd (Model_value m))"

text \<open>Iterating the enum class gives its members in the order of their definition.\<close>

definition Model_members :: "Model list" where
  "Model_members =
     [UNSPECIFIED, G_2_0_FLASH, G_2_0_FLASH_THINKING, G_2_5_FLASH, G_2_5_PRO,
      G_2_0_EXP_ADVANCED, G_2_5_EXP_ADVANCED]"

text \<open>\<^verbatim>\<open>sep.join(xs)\<close>.\<close>

fun py_join :: "string \<Rightarrow> string list \<Rightarrow> string" where
  "py_join sep [] = []"
| "py_join sep [x] = x"
| "py_join sep (x # y # ys) = x @ sep @ py_join sep (y # ys)"

text \<open>The \<^verbatim>\<open>for\<close> loop of \<^verbatim>\<open>from_name\<close>: the first member with the name, if any.\<close>

fun from_name_loop :: "string \<Rightarrow> Model list \<Rightarrow> Model option" where
  "from_name_loop name [] = None"
| "from_name_loop name (model # rest) =
     (if model_name model = name then Some model else from_name_loop name rest)"

definition from_name :: "string \<Rightarrow> py_exc + Model" where
  "from_name name =
     (case from_name_loop name Model_members of
        Some model \<Rightarrow> Inr model
      | None \<Rightarrow>
          Inl (PyExc ValueError
                (''Unknown model name: '' @ name @ ''. Available models: '' @
                 py_join '', '' (map model_name Model_members))))"


section \<open>Collaborators: the network and the disk\<close>

type_synonym bytes = string

type_synonym str_dict = "(string \<times> string) list"

text \<open>The \<^verbatim>\<open>proxy\<close> argument: \<^verbatim>\<open>None\<close>, a URL, or a dict per scheme.\<close>

datatype proxy_arg = ProxyNone | ProxyStr string | ProxyDict str_dict

definition proxies_dict :: "proxy_arg \<Rightarrow> str_dict option" where
  "proxies_dict proxy =
     (case proxy of
        ProxyStr p \<Rightarrow> Some [(''http'', p), (''https'', p)]
      | ProxyDict d \<Rightarrow> Some d
      | ProxyNone \<Rightarrow> None)"

text \<open>
  A response, as far as the code reads it: what \<^verbatim>\<open>raise_for_status()\<close> raises, if
  anything, the text and the content.
\<close>

record http_response =
  raise_for_status :: "py_exc option"
  resp_text :: string
  resp_content :: bytes

record upload_request =
  up_url :: string
  up_headers :: str_dict
  up_proxies :: "str_dict option"
  up_impersonate :: string
  up_files :: "(string \<times> bytes) list"

record get_request =
  get_url :: string
  get_cookies :: "str_dict option"
  get_proxies :: "str_dict option"
  get_impersonate :: string

text \<open>
  The requests and the writes a call makes are recorded in order, so that a property can
  say which of them happened and with what.
\<close>

datatype event =
    NetPost upload_request
  | NetGet get_request
  | DiskMkdir string
  | DiskWrite string string bytes

section \<open>utils.upload\_file\<close>

datatype file_arg = FileBytes bytes | FilePath string

text \<open>
  The file system and the upload server as \<open>upload_file\<close> meets them:
  \<^verbatim>\<open>Path(file).is_file()\<close>, reading the file, and the \<^verbatim>\<open>post\<close> within the session.
  \<^verbatim>\<open>is_file()\<close> answers \<^verbatim>\<open>False\<close> for a path that does not exist; for a path it
  cannot examine (a name too long, a directory without permission) it raises the
  \<^verbatim>\<open>OSError\<close> of the system call.
\<close>

record upload_env =
  is_file :: "string \<Rightarrow> py_exc + bool"
  open_read :: "string \<Rightarrow> py_exc + bytes"
  post :: "upload_request \<Rightarrow> py_exc + http_response"

text \<open>
  The \<^verbatim>\<open>try\<close> block. Both \<^verbatim>\<open>except\<close> clauses log and re-raise, so an exception
  of the session leaves the function as it is. Console logging is not modelled; the log
  lines read the exception only.
\<close>

definition upload_post :: "upload_env \<Rightarrow> bytes \<Rightarrow> proxy_arg \<Rightarrow> string \<Rightarrow> event list \<times> (py_exc + string)" where
  "upload_post env file_content proxy impersonate =
     (let request = \<lparr>up_url = Endpoint_value Endpoint_UPLOAD,
                      up_headers = Headers_value Headers_UPLOAD,
                      up_proxies = proxies_dict proxy,
                      up_impersonate = impersonate,
                      up_files = [(''file'', file_content)]\<rparr>
      in case post env request of
           Inl e \<Rightarrow> ([NetPost request], Inl e)
         | Inr response \<Rightarrow>
             (case raise_for_status response of
                Some e \<Rightarrow> ([NetPost request], Inl e)
              | None \<Rightarrow> ([NetPost request], Inr (resp_text response))))"

definition upload_file :: "upload_env \<Rightarrow> file_arg \<Rightarrow> proxy_arg \<Rightarrow> string \<Rightarrow> event list \<times> (py_exc + string)" where
  "upload_file env file proxy impersonate =
     (case file of
        FilePath file_path \<Rightarrow>
          (case is_file env file_path of
             Inl e \<Rightarrow> ([], Inl e)
           | Inr found \<Rightarrow>
               if \<not> found
               then ([], Inl (PyExc FileNotFoundError (''File not found at path: '' @ file_path)))
               else (case open_read env file_path of
                       Inl e \<Rightarrow> ([], Inl e)
                     | Inr file_content \<Rightarrow> upload_post env file_content proxy impersonate))
      | FileBytes file_content \<Rightarrow> upload_post env file_content proxy impersonate)"

section \<open>images.Image\<close>

record Image =
  url :: string
  title :: string
  alt :: string
  proxy :: proxy_arg
  impersonate :: string

subsection \<open>Strings and paths\<close>

text \<open>\<^verbatim>\<open>str(n)\<close> of an integer, in decimal.\<close>

definition digit_char :: "nat \<Rightarrow> char" where
  "digit_char d = ''0123456789'' ! d"

function str_nat :: "nat \<Rightarrow> string" where
  "str_nat n = (if n < 10 then [digit_char n] else str_nat (n div 10) @ [digit_char (n mod 10)])"
  by pat_completeness auto
termination
  by (relation "measure (\<lambda>n. n)") auto

declare str_nat.simps [simp del]

definition py_str_int :: "int \<Rightarrow> string" where
  "py_str_int i = (if i < 0 then CHR ''-'' # str_nat (nat (- i)) else str_nat (nat i))"

text \<open>\<^verbatim>\<open>s.rfind(c)\<close>: the last index of the character, or \<open>-1\<close>.\<close>

definition rfind :: "char \<Rightarrow> string \<Rightarrow> int" where
  "rfind c s =
     (if c \<in> set s
      then int (length s) - 1 - int (length (takeWhile (\<lambda>x. x \<noteq> c) (rev s)))
      else - 1)"

text \<open>\<^verbatim>\<open>s[:k]\<close>: a negative bound counts from the end.\<close>

definition py_slice_to :: "string \<Rightarrow> int \<Rightarrow> string" where
  "py_slice_to s k = (if 0 \<le> k then take (nat k) s else take (nat (int (length s) + k)) s)"

text \<open>
  \<^verbatim>\<open>os.path.basename\<close> and \<^verbatim>\<open>os.path.splitext\<close> of \<^verbatim>\<open>posixpath\<close>, where \<^verbatim>\<open>/\<close> is
  the only separator. The loop of \<^verbatim>\<open>splitext\<close> looks for a character other than a dot
  between the last separator and the last dot: leading dots do not start an extension.
\<close>

definition basename :: "string \<Rightarrow> string" where
  "basename p = drop (nat (rfind (CHR ''/'') p + 1)) p"

function splitext_loop :: "string \<Rightarrow> nat \<Rightarrow> nat \<Rightarrow> bool" where
  "splitext_loop p filenameIndex dotIndex =
     (if filenameIndex < dotIndex
      then (if take 1 (drop filenameIndex p) \<noteq> ''.'' then True
            else splitext_loop p (filenameIndex + 1) dotIndex)
      else False)"
  by pat_completeness auto
termination
  by (relation "measure (\<lambda>(p, filenameIndex, dotIndex). dotIndex - filenameIndex)") auto

declare splitext_loop.simps [simp del]

definition splitext :: "string \<Rightarrow> string \<times> string" where
  "splitext p =
     (let sepIndex = rfind (CHR ''/'') p;
          dotIndex = rfind (CHR ''.'') p
      in if dotIndex > sepIndex \<and> splitext_loop p (nat (sepIndex + 1)) (nat dotIndex)
         then (take (nat dotIndex) p, drop (nat dotIndex) p)
         else (p, []))"

text \<open>
  \<^verbatim>\<open>re.sub(r'[<>:"/\|?*]', '_', s)\<close>. Within the character class \<^verbatim>\<open>\|\<close> is an escaped
  \<^verbatim>\<open>|\<close>, so the class holds these eight characters; the backslash is not one of them.
\<close>

definition re_sub_unsafe :: "string \<Rightarrow> string" where
  "re_sub_unsafe s = map (\<lambda>c. if c \<in> set ''<>:\"/|?*'' then CHR ''_'' else c) s"

subsection \<open>Image.save\<close>

text \<open>
  What \<open>save\<close> meets outside itself: \<^verbatim>\<open>unquote(urlparse(url).path)\<close> (or the exception
  it raises), the draws of \<^verbatim>\<open>random.randint(1000, 9999)\<close> in order, what \<^verbatim>\<open>Path(filename)\<close>
  raises, the \<^verbatim>\<open>get\<close> within the session, and \<^verbatim>\<open>mkdir\<close>, \<^verbatim>\<open>write_bytes\<close> and
  \<^verbatim>\<open>resolve\<close> on the destination (directory and file name).
\<close>

record save_env =
  unquote_url_path :: "string \<Rightarrow> py_exc + string"
  randint :: "nat \<Rightarrow> int"
  path_ctor :: "string \<Rightarrow> py_exc option"
  http_get :: "get_request \<Rightarrow> py_exc + http_response"
  mkdir :: "string \<Rightarrow> py_exc option"
  write_bytes :: "string \<Rightarrow> string \<Rightarrow> bytes \<Rightarrow> py_exc option"
  resolve :: "string \<Rightarrow> string \<Rightarrow> string"

definition fallback_name :: "int \<Rightarrow> string" where
  "fallback_name n = ''image_'' @ py_str_int n @ ''.jpg''"

text \<open>
  The block under \<^verbatim>\<open>if not filename\<close>: the file name and the number of random draws
  it used. Any exception of the block leads to the fallback name.
\<close>

definition derive_filename :: "save_env \<Rightarrow> string \<Rightarrow> string \<times> nat" where
  "derive_filename env u =
     (case unquote_url_path env u of
        Inl e \<Rightarrow> (fallback_name (randint env 0), 1)
      | Inr p \<Rightarrow>
          (let base_filename = basename p;
               safe_filename = re_sub_unsafe base_filename
           in if safe_filename \<noteq> [] then (safe_filename, 0)
              else (fallback_name (randint env 0), 1)))"

definition truncate_filename :: "string \<Rightarrow> string" where
  "truncate_filename filename =
     (let max_len = 255
      in if int (length filename) > max_len
         then (case splitext filename of
                 (name, ext) \<Rightarrow> py_slice_to name (max_len - int (length ext) - 1) @ ext)
         else filename)"

text \<open>
  The block under \<^verbatim>\<open># Validate filename length\<close>: \<open>Inr None\<close> is the \<^verbatim>\<open>return None\<close>
  of a skipped save, \<open>Inr (Some f)\<close> goes on with the name \<open>f\<close>, and an exception that is
  neither an \<^verbatim>\<open>OSError\<close> nor a \<^verbatim>\<open>ValueError\<close> leaves the function.
\<close>

definition check_filename :: "save_env \<Rightarrow> string \<Rightarrow> bool \<Rightarrow> nat \<Rightarrow> py_exc + string option" where
  "check_filename env filename skip_invalid_filename draws =
     (case path_ctor env filename of
        None \<Rightarrow> Inr (Some (truncate_filename filename))
      | Some e \<Rightarrow>
          if is_subclass (exc_cls e) OSError \<or> is_subclass (exc_cls e) ValueError
          then (if skip_invalid_filename then Inr None
                else Inr (Some (fallback_name (randint env draws))))
          else Inl e)"

text \<open>
  The \<^verbatim>\<open>except\<close> clauses of the download: each logs and re-raises. The clause for
  \<^verbatim>\<open>IOError\<close> formats \<^verbatim>\<open>dest\<close> into its log line, a local that is bound only once the
  directory has been made.
\<close>

definition save_except :: "bool \<Rightarrow> py_exc \<Rightarrow> py_exc" where
  "save_except dest_bound e =
     (if is_subclass (exc_cls e) HTTPError then e
      else if is_subclass (exc_cls e) RequestException \<or> is_subclass (exc_cls e) CurlError then e
      else if is_subclass (exc_cls e) OSError
        then (if dest_bound then e
              else PyExc UnboundLocalError ''cannot access local variable dest'')
      else e)"

definition Image_download :: "save_env \<Rightarrow> Image \<Rightarrow> string \<Rightarrow> string \<Rightarrow> str_dict option \<Rightarrow> event list \<times> (py_exc + string option)" where
  "Image_download env self path filename cookies =
     (let request = \<lparr>get_url = url self, get_cookies = cookies,
                      get_proxies = proxies_dict (proxy self),
                      get_impersonate = impersonate self\<rparr>
      in case http_get env request of
           Inl e \<Rightarrow> ([NetGet request], Inl (save_except False e))
         | Inr response \<Rightarrow>
             (case raise_for_status response of
                Some e \<Rightarrow> ([NetGet request], Inl (save_except False e))
              | None \<Rightarrow>
                  (case mkdir env path of
                     Some e \<Rightarrow> ([NetGet request, DiskMkdir path], Inl (save_except False e))
                   | None \<Rightarrow>
                       (case write_bytes env path filename (resp_content response) of
                          Some e \<Rightarrow>
                            ([NetGet request, DiskMkdir path,
                              DiskWrite path filename (resp_content response)],
                             Inl (save_except True e))
                        | None \<Rightarrow>
                            ([NetGet request, DiskMkdir path,
                              DiskWrite path filename (resp_content response)],
                             Inr (Some (resolve env path filename)))))))"

text \<open>\<open>verbose\<close> only selects what is logged.\<close>

definition Image_save :: "save_env \<Rightarrow> Image \<Rightarrow> string \<Rightarrow> string option \<Rightarrow> str_dict option \<Rightarrow> bool \<Rightarrow> bool \<Rightarrow> event list \<times> (py_exc + string option)" where
  "Image_save env self path filename cookies verbose skip_invalid_filename =
     (case (case filename of
              None \<Rightarrow> derive_filename env (url self)
            | Some f \<Rightarrow> if f = [] then derive_filename env (url self) else (f, 0)) of
        (filename1, draws) \<Rightarrow>
          (case check_filename env filename1 skip_invalid_filename draws of
             Inl e \<Rightarrow> ([], Inl e)
           | Inr None \<Rightarrow> ([], Inr None)
           | Inr (Some filename2) \<Rightarrow> Image_download env self path filename2 cookies))"


section \<open>images.GeneratedImage\<close>

record GeneratedImage = Image +
  cookies :: str_dict

text \<open>
  The model class checks the field against its annotation \<^verbatim>\<open>Dict[str, str]\<close> before
  the field validator of the source runs: the input has to be a dict whose values are
  strings.
\<close>

definition as_str_dict :: "json \<Rightarrow> str_dict option" where
  "as_str_dict v =
     (case v of
        JObj kv \<Rightarrow> those (map (\<lambda>(k, x). case x of JStr s \<Rightarrow> Some (k, s) | _ \<Rightarrow> None) kv)
      | _ \<Rightarrow> None)"

text \<open>
  \<^verbatim>\<open>validate_cookies\<close>: \<^verbatim>\<open>not v\<close> holds of the empty dict; \<^verbatim>\<open>isinstance(v, dict)\<close>
  holds of every value that has passed the check of the annotation.
\<close>

definition validate_cookies :: "str_dict \<Rightarrow> py_exc + str_dict" where
  "validate_cookies v =
     (if v = [] \<or> \<not> True
      then Inl (PyExc ValueError ''GeneratedImage requires a dictionary of cookies from the client.'')
      else Inr v)"

text \<open>
  Constructing a \<open>GeneratedImage\<close> from the fields of an image and the value given for
  \<^verbatim>\<open>cookies\<close> (\<open>None\<close>: the argument is missing). The validation error of the model class
  is a \<^verbatim>\<open>ValueError\<close>.
\<close>

definition GeneratedImage_init :: "Image \<Rightarrow> json option \<Rightarrow> py_exc + GeneratedImage" where
  "GeneratedImage_init img cookies_arg =
     (case cookies_arg of
        None \<Rightarrow> Inl (PyExc ValueError ''cookies: Field required'')
      | Some raw \<Rightarrow>
          (case as_str_dict raw of
             None \<Rightarrow> Inl (PyExc ValueError ''cookies: Input should be a valid dictionary of strings'')
           | Some d \<Rightarrow>
               (case validate_cookies d of
                  Inl e \<Rightarrow> Inl e
                | Inr v \<Rightarrow> Inr (Image.extend img (GeneratedImage.fields v)))))"

text \<open>\<^verbatim>\<open>str.lower()\<close> on the ASCII letters.\<close>

definition lower_char :: "char \<Rightarrow> char" where
  "lower_char c =
     (case map_of (zip ''ABCDEFGHIJKLMNOPQRSTUVWXYZ'' ''abcdefghijklmnopqrstuvwxyz'') c of
        Some l \<Rightarrow> l
      | None \<Rightarrow> c)"

definition py_lower :: "string \<Rightarrow> string" where
  "py_lower s = map lower_char s"

text \<open>\<^verbatim>\<open>sub in s\<close> for strings.\<close>

fun py_in :: "string \<Rightarrow> string \<Rightarrow> bool" where
  "py_in sub [] = (sub = [])"
| "py_in sub (c # cs) = (take (length sub) (c # cs) = sub \<or> py_in sub cs)"

text \<open>\<^verbatim>\<open>s.split('/')[-1]\<close>: what follows the last \<^verbatim>\<open>/\<close>.\<close>

definition split_last :: "string \<Rightarrow> string" where
  "split_last s = rev (takeWhile (\<lambda>c. c \<noteq> CHR ''/'') (rev s))"

text \<open>
  The keyword arguments of \<open>GeneratedImage.save\<close>: each parameter of \<open>Image.save\<close> is given
  or not (\<^verbatim>\<open>filename\<close> and \<^verbatim>\<open>cookies\<close> may be given as \<^verbatim>\<open>None\<close>), and \<open>kw_unexpected\<close>
  lists the keywords that \<open>Image.save\<close> does not have.
\<close>

record save_kwargs =
  kw_path :: "string option"
  kw_filename :: "string option option"
  kw_cookies :: "str_dict option option"
  kw_verbose :: "bool option"
  kw_skip_invalid_filename :: "bool option"
  kw_unexpected :: "string list"

text \<open>
  \<open>now\<close> is \<^verbatim>\<open>datetime.now().strftime('%Y%m%d%H%M%S')\<close>. The call
  \<^verbatim>\<open>super().save(cookies=self.cookies, **kwargs)\<close> is a \<^verbatim>\<open>TypeError\<close> when the keyword
  arguments hold \<^verbatim>\<open>cookies\<close> again or a keyword that \<open>Image.save\<close> does not know.
\<close>

definition GeneratedImage_save :: "save_env \<Rightarrow> string \<Rightarrow> GeneratedImage \<Rightarrow> save_kwargs \<Rightarrow> event list \<times> (py_exc + string option)" where
  "GeneratedImage_save env now self kwargs =
     (let filename =
            (case kw_filename kwargs of
               None \<Rightarrow>
                 (let ext = (if py_in ''.jpg'' (py_lower (url self)) then ''.jpg'' else ''.png'');
                      url_part = take 10 (split_last (url self))
                  in Some (now @ ''_'' @ url_part @ ext))
             | Some f \<Rightarrow> f)
      in if kw_cookies kwargs \<noteq> None
         then ([], Inl (PyExc TypeError ''got multiple values for keyword argument cookies''))
         else if kw_unexpected kwargs \<noteq> []
         then ([], Inl (PyExc TypeError ''got an unexpected keyword argument''))
         else Image_save env (Image.truncate self)
                (case kw_path kwargs of None \<Rightarrow> ''downloaded_images'' | Some p \<Rightarrow> p)
                filename
                (Some (cookies self))
                (case kw_verbose kwargs of None \<Rightarrow> False | Some b \<Rightarrow> b)
                (case kw_skip_invalid_filename kwargs of None \<Rightarrow> True | Some b \<Rightarrow> b))"

text \<open>The requests of a trace.\<close>

fun downloads :: "event list \<Rightarrow> get_request list" where
  "downloads [] = []"
| "downloads (NetGet r # es) = r # downloads es"
| "downloads (e # es) = downloads es"

fun network_requests :: "event list \<Rightarrow> event list" where
  "network_requests [] = []"
| "network_requests (NetPost r # es) = NetPost r # network_requests es"
| "network_requests (NetGet r # es) = NetGet r # network_requests es"
| "network_requests (e # es) = network_requests es"


section \<open>The session engine\<close>

text \<open>
  Modelled from the spec: the module \<^verbatim>\<open>core\<close> that \<^verbatim>\<open>__init__.py\<close> imports, with the
  session engine and its \<open>send\<close>, is not among the source files. The records follow the
  data model of the specification, the functions the contracts of its components
  (CookieStore, RequestBuilder, ConversationState, SessionEngine) and the seven steps
  of the algorithm of \<open>send\<close>.
\<close>

record Credentials =
  auth_primary :: string
  auth_secondary :: string

record ModelConfig =
  canonical_name :: string
  protocol_fragment :: string
  advanced_tier_only :: bool

record ConversationState =
  conversation_id :: "string option"
  last_response_id :: "string option"
  chosen_candidate_id :: "string option"

record DecodedResult =
  reply_text :: string
  candidates :: "string list"
  next_state :: ConversationState

text \<open>
  Modelled from the spec: what \<open>build_generate\<close> is given for one generate request. The
  encoding of headers and body belongs to the missing module; a request is identified
  here by the inputs it is built from.
\<close>

record generate_call =
  gc_prompt :: string
  gc_attachments :: "string list"
  gc_model :: ModelConfig
  gc_state :: ConversationState
  gc_credentials :: Credentials

text \<open>
  Modelled from the spec: the answers of the service. A generate response indicates an
  authentication failure, another transport failure, or carries a body; a rotation is
  rejected or returns two credential values.
\<close>

datatype generate_response = AuthFailure | TransportFailure | Body string

datatype rotate_response = RotRejected | RotReturned string string

datatype send_error =
    ConfigError
  | ModelUnavailableError
  | AuthError
  | TransportError
  | ParseError string

datatype engine_event = Rotate Credentials | Generate generate_call

text \<open>
  Modelled from the spec: the surroundings of one call of \<open>send\<close>. The static mapping
  from model names to configurations, the caller's advanced-tier eligibility, whether
  the CookieStore reports staleness, the decoder, and the recorded responses: the
  \<open>k\<close>-th rotation and the \<open>k\<close>-th generate request of the call are answered by
  \<open>rotate_fixture k\<close> and \<open>generate_fixture k\<close>.
\<close>

record engine_env =
  resolve_model :: "string \<Rightarrow> ModelConfig option"
  advanced_eligible :: bool
  is_stale :: bool
  decode :: "string \<Rightarrow> DecodedResult option"
  rotate_fixture :: "nat \<Rightarrow> Credentials \<Rightarrow> rotate_response"
  generate_fixture :: "nat \<Rightarrow> generate_call \<Rightarrow> generate_response"

text \<open>
  Modelled from the spec: \<open>CookieStore.rotate\<close>, the \<open>k\<close>-th rotation of the call, with
  the current credentials as bearer of trust. It fails (\<open>None\<close>, an \<open>AuthError\<close>) if the
  service rejects the rotation or returns incomplete credentials, and then the old
  credentials stay.
\<close>

definition rotate_credentials :: "engine_env \<Rightarrow> nat \<Rightarrow> Credentials \<Rightarrow> Credentials option" where
  "rotate_credentials env k current =
     (case rotate_fixture env k current of
        RotRejected \<Rightarrow> None
      | RotReturned p s \<Rightarrow>
          if p = [] \<or> s = [] then None
          else Some \<lparr>auth_primary = p, auth_secondary = s\<rparr>)"

text \<open>
  Modelled from the spec: step 2 of \<open>send\<close>, the proactive rotation of stale credentials,
  whose failure is not fatal. The result is the events, the credentials to go on with
  and the number of rotations made.
\<close>

definition proactive_rotation :: "engine_env \<Rightarrow> Credentials \<Rightarrow> engine_event list \<times> Credentials \<times> nat" where
  "proactive_rotation env current =
     (if is_stale env
      then (case rotate_credentials env 0 current of
              Some fresh \<Rightarrow> ([Rotate current], fresh, 1)
            | None \<Rightarrow> ([Rotate current], current, 1))
      else ([], current, 0))"

text \<open>
  Modelled from the spec: steps 6 and 7 of \<open>send\<close>. The body is decoded, a \<open>ParseError\<close>
  carries the raw fragment, and the new conversation state is the one of the result.
\<close>

definition decode_and_advance :: "engine_env \<Rightarrow> string \<Rightarrow> send_error + (DecodedResult \<times> ConversationState)" where
  "decode_and_advance env body =
     (case decode env body of
        None \<Rightarrow> Inl (ParseError body)
      | Some decoded \<Rightarrow> Inr (decoded, next_state decoded))"

text \<open>
  Modelled from the spec: \<open>SessionEngine.send\<close>, steps 1 to 7. The result is the
  sequence of rotation and generate requests made, the credentials held afterwards, and
  the error or the decoded result with the new conversation state. An unknown model
  fails before any network activity; an advanced-only model without eligibility fails
  when the request is built, before it is sent; an authentication failure leads to one
  rotation and, when that succeeds, to one retry of the same request with the new
  credentials; a rejected rotation or a second authentication failure is an
  \<open>AuthError\<close>; another transport failure is surfaced at once.
\<close>

definition send :: "engine_env \<Rightarrow> Credentials \<Rightarrow> string \<Rightarrow> string list \<Rightarrow> string \<Rightarrow> ConversationState \<Rightarrow> engine_event list \<times> Credentials \<times> (send_error + (DecodedResult \<times> ConversationState))" where
  "send env current prompt attachments name state =
     (case resolve_model env name of
        None \<Rightarrow> ([], current, Inl ConfigError)
      | Some model \<Rightarrow>
          (case proactive_rotation env current of
             (events0, creds0, k) \<Rightarrow>
               if advanced_tier_only model \<and> \<not> advanced_eligible env
               then (events0, creds0, Inl ModelUnavailableError)
               else
                 (let call1 = \<lparr>gc_prompt = prompt, gc_attachments = attachments,
                                gc_model = model, gc_state = state,
                                gc_credentials = creds0\<rparr>
                  in case generate_fixture env 0 call1 of
                       TransportFailure \<Rightarrow> (events0 @ [Generate call1], creds0, Inl TransportError)
                     | Body body \<Rightarrow>
                         (events0 @ [Generate call1], creds0, decode_and_advance env body)
                     | AuthFailure \<Rightarrow>
                         (case rotate_credentials env k creds0 of
                            None \<Rightarrow>
                              (events0 @ [Generate call1, Rotate creds0], creds0, Inl AuthError)
                          | Some creds1 \<Rightarrow>
                              (let call2 = call1\<lparr>gc_credentials := creds1\<rparr>;
                                   events2 = events0 @ [Generate call1, Rotate creds0, Generate call2]
                               in case generate_fixture env 1 call2 of
                                    AuthFailure \<Rightarrow> (events2, creds1, Inl AuthError)
                                  | TransportFailure \<Rightarrow> (events2, creds1, Inl TransportError)
                                  | Body body \<Rightarrow>
                                      (events2, creds1, decode_and_advance env body))))))"

text \<open>The generate requests of a trace, and its rotation attempts.\<close>

fun generate_calls :: "engine_event list \<Rightarrow> generate_call list" where
  "generate_calls [] = []"
| "generate_calls (Generate c # es) = c # generate_calls es"
| "generate_calls (Rotate c # es) = generate_calls es"

fun rotation_attempts :: "engine_event list \<Rightarrow> nat" where
  "rotation_attempts [] = 0"
| "rotation_attempts (Rotate c # es) = Suc (rotation_attempts es)"
| "rotation_attempts (Generate c # es) = rotation_attempts es"



section \<open>Example inputs\<close>

text \<open>
  A cookie entry as a browser export writes it, and three cookie sources: a file that
  holds a given value, a path without a file, and a file that is not JSON.
\<close>

definition cookie_entry :: "string \<Rightarrow> string \<Rightarrow> json" where
  "cookie_entry n v = JObj [(''name'', JStr n), (''value'', JStr v)]"

definition file_with :: "json \<Rightarrow> string \<Rightarrow> py_exc + json" where
  "file_with v cookie_path = Inr v"

definition no_file :: "string \<Rightarrow> py_exc + json" where
  "no_file cookie_path = Inl (PyExc FileNotFoundError ''No such file or directory'')"

definition bad_json :: "string \<Rightarrow> py_exc + json" where
  "bad_json cookie_path = Inl (PyExc JSONDecodeError ''Expecting value'')"

text \<open>
  The encodings of U+017F (long s) and U+0131 (dotless i), and the part of the Unicode
  case table that the examples need: it maps these two to \<^verbatim>\<open>S\<close> and \<^verbatim>\<open>I\<close>; no other
  character beyond ASCII occurs in the examples.
\<close>

definition long_s :: string where
  "long_s = [CHR 0xC5, CHR 0xBF]"

definition dotless_i :: string where
  "dotless_i = [CHR 0xC4, CHR 0xB1]"

definition upper_table_excerpt :: "string \<Rightarrow> string" where
  "upper_table_excerpt ch =
     (if ch = long_s then ''S'' else if ch = dotless_i then ''I'' else ch)"

definition shuffled_cookies :: "json list" where
  "shuffled_cookies =
     [cookie_entry ''NID'' ''511=abc'',
      cookie_entry ''__secure-1psidts'' ''sidts-value'',
      cookie_entry ''SID'' ''other'',
      cookie_entry ''__Secure-1PSID'' ''sid-value'']"


definition empty_first_cookies :: "json list" where
  "empty_first_cookies =
     [cookie_entry ''__Secure-1PSID'' [],
      cookie_entry ''__Secure-1PSID'' ''sid-value'',
      cookie_entry ''__Secure-1PSIDTS'' ''sidts-value'']"


definition incomplete_cookies :: "json list" where
  "incomplete_cookies =
     [cookie_entry ''__Secure-1PSID'' ''sid-value'',
      cookie_entry ''__Secure-1PSIDTS'' []]"

text \<open>A file system without files, in front of a server that accepts every upload.\<close>

definition empty_disk :: upload_env where
  "empty_disk =
     \<lparr>is_file = (\<lambda>file_path. Inr False),
      open_read = (\<lambda>file_path. Inl (PyExc FileNotFoundError ''No such file or directory'')),
      post = (\<lambda>request. Inr \<lparr>raise_for_status = None, resp_text = ''id-1'', resp_content = []\<rparr>)\<rparr>"

text \<open>
  The same disk, on which a file name of more than 255 characters cannot be examined:
  the system call fails with \<^verbatim>\<open>ENAMETOOLONG\<close>. And a path of 5000 characters.
\<close>

definition name_limit_disk :: upload_env where
  "name_limit_disk =
     empty_disk\<lparr>is_file := (\<lambda>file_path.
        if length file_path > 255 then Inl (PyExc OSError ''[Errno 36] File name too long'')
        else Inr False)\<rparr>"

definition long_path :: string where
  "long_path = replicate 5000 (CHR ''a'')"

text \<open>A disk on which no path may be examined.\<close>

definition locked_disk :: upload_env where
  "locked_disk =
     empty_disk\<lparr>is_file := (\<lambda>file_path. Inl (PyExc OSError ''[Errno 13] Permission denied''))\<rparr>"

text \<open>
  A web and a disk on which every step of a save succeeds: the URL's unquoted path is
  \<open>p\<close>, every random draw is 1000, no file name is refused, the server answers with a
  few bytes, and the destination resolves below a home directory.
\<close>

definition web_serving :: "string \<Rightarrow> save_env" where
  "web_serving p =
     \<lparr>unquote_url_path = (\<lambda>u. Inr p),
      randint = (\<lambda>k. 1000),
      path_ctor = (\<lambda>filename. None),
      http_get = (\<lambda>request. Inr \<lparr>raise_for_status = None, resp_text = [], resp_content = ''image-bytes''\<rparr>),
      mkdir = (\<lambda>d. None),
      write_bytes = (\<lambda>d filename content. None),
      resolve = (\<lambda>d filename. ''/home/user/'' @ d @ ''/'' @ filename)\<rparr>"

text \<open>The same, except that \<^verbatim>\<open>Path(filename)\<close> raises a \<^verbatim>\<open>ValueError\<close> for every name.\<close>

definition web_refusing_names :: "string \<Rightarrow> save_env" where
  "web_refusing_names p =
     (web_serving p)\<lparr>path_ctor := (\<lambda>filename. Some (PyExc ValueError ''embedded null character''))\<rparr>"

definition picture :: "string \<Rightarrow> Image" where
  "picture u = \<lparr>url = u, title = ''[Image]'', alt = [], proxy = ProxyNone, impersonate = ''chrome110''\<rparr>"

text \<open>
  Three file names: 512 characters with the extension \<^verbatim>\<open>.jpg\<close>, 512 characters
  of which 511 are the extension, and a name with a backslash in it.
\<close>

definition long_stem :: string where
  "long_stem = replicate 508 (CHR ''a'') @ ''.jpg''"

definition long_extension :: string where
  "long_extension = ''a.'' @ replicate 510 (CHR ''b'')"

definition backslash_name :: string where
  "backslash_name = ''a'' @ [CHR 0x5C] @ ''b.jpg''"

text \<open>A generated image with one session cookie, and a call of its \<open>save\<close> without arguments.\<close>

definition generated_picture :: GeneratedImage where
  "generated_picture =
     \<lparr>url = ''https://lh3.googleusercontent.com/gen/abc123.png'', title = ''[Generated]'',
      alt = [], proxy = ProxyNone, impersonate = ''chrome110'',
      cookies = [(''__Secure-1PSID'', ''sid-value'')]\<rparr>"

definition no_kwargs :: save_kwargs where
  "no_kwargs =
     \<lparr>kw_path = None, kw_filename = None, kw_cookies = None, kw_verbose = None,
      kw_skip_invalid_filename = None, kw_unexpected = []\<rparr>"

text \<open>
  A model, two pairs of credentials and a fresh conversation; and two services. Both
  answer every generate request with an authentication failure. The first grants every
  rotation, the second rejects every rotation (the session has been logged out).
\<close>

definition flash_config :: ModelConfig where
  "flash_config =
     \<lparr>canonical_name = ''gemini-2.5-flash'',
      protocol_fragment = ''[1,null,null,null,35609594dbe934d8]'',
      advanced_tier_only = False\<rparr>"

definition old_credentials :: Credentials where
  "old_credentials = \<lparr>auth_primary = ''sid-old'', auth_secondary = ''ts-old''\<rparr>"

definition new_credentials :: Credentials where
  "new_credentials = \<lparr>auth_primary = ''sid-new'', auth_secondary = ''ts-new''\<rparr>"

definition fresh_state :: ConversationState where
  "fresh_state = \<lparr>conversation_id = None, last_response_id = None, chosen_candidate_id = None\<rparr>"

definition hello_call :: "Credentials \<Rightarrow> generate_call" where
  "hello_call c =
     \<lparr>gc_prompt = ''hello'', gc_attachments = [], gc_model = flash_config,
      gc_state = fresh_state, gc_credentials = c\<rparr>"

definition rejecting_service :: engine_env where
  "rejecting_service =
     \<lparr>resolve_model = (\<lambda>name. if name = ''gemini-2.5-flash'' then Some flash_config else None),
      advanced_eligible = False,
      is_stale = False,
      decode = (\<lambda>body. None),
      rotate_fixture = (\<lambda>k c. RotReturned ''sid-new'' ''ts-new''),
      generate_fixture = (\<lambda>k c. AuthFailure)\<rparr>"

definition logged_out_service :: engine_env where
  "logged_out_service = rejecting_service\<lparr>rotate_fixture := (\<lambda>k c. RotRejected)\<rparr>"

section \<open>Properties of load\_cookies\<close>

lemma next_value_found:
  "next_value uc t items = Inr v \<Longrightarrow> truthy v \<Longrightarrow> earliest_value uc t items = Some v"
proof (induction items)
  case Nil then show ?case by simp
next
  case (Cons item rest)
  show ?case
  proof (cases "py_subscript item ''name''")
    case (Inl e) with Cons.prems show ?thesis by simp
  next
    case (Inr n)
    then obtain kv where item: "item = JObj kv" and n: "map_of kv ''name'' = Some n"
      by (cases item) (auto split: option.splits)
    show ?thesis
    proof (cases n)
      case (JStr s)
      with item n have en: "entry_name item = Some s" by (simp add: entry_name_def)
      show ?thesis
      proof (cases "py_upper uc s = t")
        case True
        with Cons.prems item n JStr have "map_of kv ''value'' = Some v"
          by (auto split: option.splits)
        with True en item show ?thesis
          by (simp add: earliest_value_def named_def entry_value_def)
      next
        case False
        with Cons.prems item n JStr have "next_value uc t rest = Inr v" by simp
        from Cons.IH[OF this Cons.prems(2)] False en show ?thesis
          by (simp add: earliest_value_def named_def)
      qed
    qed (use Cons.prems item n in auto)
  qed
qed

lemma next_value_earliest:
  "\<forall>item\<in>set items. entry_name item \<noteq> None \<Longrightarrow>
   next_value uc t items = (case find (named uc t) items of None \<Rightarrow> Inr JNull
      | Some item \<Rightarrow> py_subscript item ''value'')"
proof (induction items)
  case Nil then show ?case by simp
next
  case (Cons item rest)
  from Cons.prems obtain s where en: "entry_name item = Some s" by auto
  then obtain kv where item: "item = JObj kv" and n: "map_of kv ''name'' = Some (JStr s)"
    by (cases item) (auto simp: entry_name_def split: option.splits json.splits)
  from Cons have IH: "next_value uc t rest = (case find (named uc t) rest of None \<Rightarrow> Inr JNull
      | Some item \<Rightarrow> py_subscript item ''value'')" by simp
  have "named uc t item = (py_upper uc s = t)" using en by (simp add: named_def)
  then show ?case using item n IH by simp
qed

lemma next_value_returns:
  assumes "\<forall>item\<in>set items. entry_name item \<noteq> None" and "earliest_value uc t items = Some v"
  shows "next_value uc t items = Inr v"
proof -
  from assms(2) obtain item where f: "find (named uc t) items = Some item" and v: "entry_value item = Some v"
    by (auto simp: earliest_value_def split: option.splits)
  from v have "py_subscript item ''value'' = Inr v"
    by (cases item) (auto simp: entry_value_def)
  with next_value_earliest[OF assms(1), of uc t] f show ?thesis by simp
qed

lemma has_credential_earliest:
  "earliest_value uc t items = Some v \<Longrightarrow> truthy v \<Longrightarrow> has_credential uc t items"
  by (auto simp: earliest_value_def has_credential_def list_ex_iff find_Some_iff split: option.splits)

lemma load_cookies_try_list:
  "read_json p = Inr (JArr items) \<Longrightarrow>
   load_cookies_try uc read_json p =
     (case next_value uc ''__SECURE-1PSID'' items of Inl e \<Rightarrow> Inl e
      | Inr a \<Rightarrow> (case next_value uc ''__SECURE-1PSIDTS'' items of Inl e \<Rightarrow> Inl e
         | Inr b \<Rightarrow> if \<not> truthy a \<or> \<not> truthy b
             then Inl (PyExc StopIteration ''Required cookies (__Secure-1PSID or __Secure-1PSIDTS) not found.'')
             else Inr (a, b)))"
  by (simp add: load_cookies_try_def split: sum.splits)

lemma load_cookies_Inr_iff:
  "load_cookies uc read_json p = Inr r \<longleftrightarrow> load_cookies_try uc read_json p = Inr r"
  by (simp add: load_cookies_def split: sum.splits)

lemma load_cookies_try_truthy:
  "load_cookies_try uc read_json p = Inr (a, b) \<Longrightarrow> truthy a \<and> truthy b"
  by (auto simp: load_cookies_try_def split: sum.splits if_splits)

lemma load_cookies_except_descriptive:
  "exc_cls (load_cookies_except p e) = Exception \<and> descriptive p (exc_msg (load_cookies_except p e))"
  by (auto simp: load_cookies_except_def descriptive_def prefix_def suffix_def)

lemma next_value_raises:
  "next_value uc t items = Inl e \<Longrightarrow> exc_cls e \<in> {KeyError, TypeError, AttributeError}"
proof (induction items)
  case Nil then show ?case by simp
next
  case (Cons item rest)
  have s: "py_subscript item k = Inl x \<Longrightarrow> exc_cls x \<in> {KeyError, TypeError}" for k x
    by (cases item) (auto split: option.splits)
  have u: "py_upper_method uc n = Inl x \<Longrightarrow> exc_cls x = AttributeError" for n x
    by (cases n) auto
  from Cons show ?case
    by (auto split: sum.splits if_splits dest: s u)
qed

lemma next_value_well_formed:
  assumes "list_all well_formed items"
  shows "\<exists>v. next_value uc t items = Inr v \<and> (truthy v \<longrightarrow> has_credential uc t items)"
proof -
  from assms have names: "\<forall>item\<in>set items. entry_name item \<noteq> None"
    by (auto simp: list_all_iff well_formed_def)
  show ?thesis
  proof (cases "find (named uc t) items")
    case None
    with next_value_earliest[OF names, of uc t] show ?thesis by simp
  next
    case (Some item)
    then have mem: "item \<in> set items" and nm: "named uc t item"
      by (auto simp: find_Some_iff)
    with assms obtain v where v: "entry_value item = Some v"
      by (auto simp: list_all_iff well_formed_def)
    then have sub: "py_subscript item ''value'' = Inr v"
      by (cases item) (auto simp: entry_value_def)
    from mem nm v have "truthy v \<longrightarrow> has_credential uc t items"
      by (auto simp: has_credential_def list_ex_iff)
    with next_value_earliest[OF names, of uc t] Some sub show ?thesis by simp
  qed
qed

lemmas example_simps =
  cookie_entry_def file_with_def no_file_def bad_json_def entry_name_def entry_value_def
  well_formed_def named_def earliest_value_def has_credential_def py_upper_def upper_full_def
  upper_char_def is_ascii_def is_continuation_def long_s_def dotless_i_def
  upper_table_excerpt_def

text \<open>
  Claim C1, as amended. For every cookie list whose entries carry a string name, and in
  which the earliest entry named \<^verbatim>\<open>__Secure-1PSID\<close> (in any character case) and the
  earliest entry named \<^verbatim>\<open>__Secure-1PSIDTS\<close> each have a non-empty string value,
  \<open>load_cookies\<close> returns exactly the pair of these two values, whatever the order of the
  list and whatever other entries it holds. An entry is named as the source compares
  names, by \<^verbatim>\<open>upper()\<close>, under whatever case table the interpreter has.
\<close>

theorem load_cookies_returns_pair:
  assumes "read_json cookie_path = Inr (JArr items)"
    and "\<forall>item\<in>set items. entry_name item \<noteq> None"
    and "earliest_value uc ''__SECURE-1PSID'' items = Some (JStr v1)" and "v1 \<noteq> []"
    and "earliest_value uc ''__SECURE-1PSIDTS'' items = Some (JStr v2)" and "v2 \<noteq> []"
  shows "load_cookies uc read_json cookie_path = Inr (JStr v1, JStr v2)"
proof -
  have "next_value uc ''__SECURE-1PSID'' items = Inr (JStr v1)"
    using assms(2,3) by (rule next_value_returns)
  moreover have "next_value uc ''__SECURE-1PSIDTS'' items = Inr (JStr v2)"
    using assms(2,5) by (rule next_value_returns)
  ultimately have "load_cookies_try uc read_json cookie_path = Inr (JStr v1, JStr v2)"
    using assms(1,4,6) by (simp add: load_cookies_try_list)
  then show ?thesis by (simp add: load_cookies_Inr_iff)
qed

text \<open>
  The required names in another order, in lower case, between two other cookies.
\<close>

theorem load_cookies_returns_pair_witness:
  "load_cookies upper_table_excerpt (file_with (JArr shuffled_cookies)) ''cookies.json''
     = Inr (JStr ''sid-value'', JStr ''sidts-value'')"
  by (rule load_cookies_returns_pair[where items = shuffled_cookies])
     (simp_all add: shuffled_cookies_def example_simps)

text \<open>
  Claim C1, as stated, fails when a required name occurs twice: the list below holds an
  entry of each required name with a non-empty value, all its entries are well formed,
  and \<open>load_cookies\<close> raises, because it reads the earliest entry of the name only and
  that one is empty.
\<close>

theorem load_cookies_first_empty_counterexample:
  "has_credential upper_table_excerpt ''__SECURE-1PSID'' empty_first_cookies \<and>
   has_credential upper_table_excerpt ''__SECURE-1PSIDTS'' empty_first_cookies \<and>
   list_all well_formed empty_first_cookies \<and>
   load_cookies upper_table_excerpt (file_with (JArr empty_first_cookies)) ''cookies.json''
     = Inl (PyExc Exception
         ''Required cookies (__Secure-1PSID or __Secure-1PSIDTS) not found. Check the cookie file format and content.'')"
  by (simp add: empty_first_cookies_def example_simps load_cookies_def load_cookies_try_def
      load_cookies_except_def is_subclass_def)



text \<open>
  Claim C3. Whatever the file holds, \<open>load_cookies\<close> either returns a pair of two
  non-empty values or raises an \<^verbatim>\<open>Exception\<close> with one of its four messages, so no
  partial pair is ever returned. Each kind of failure has its own message: an absent
  file is reported with its path, malformed JSON as invalid JSON, and a list of
  well-formed entries in which no entry of one of the required names has a non-empty
  value as required cookies not found. When such a list holds malformed entries as
  well, the message is that one or the one of an unexpected error.
\<close>

theorem load_cookies_failure:
  "(\<forall>a b. load_cookies uc read_json cookie_path = Inr (a, b) \<longrightarrow> truthy a \<and> truthy b) \<and>
   (\<forall>e. load_cookies uc read_json cookie_path = Inl e \<longrightarrow>
      exc_cls e = Exception \<and> descriptive cookie_path (exc_msg e)) \<and>
   (\<forall>e. read_json cookie_path = Inl e \<and> is_subclass (exc_cls e) FileNotFoundError \<longrightarrow>
      load_cookies uc read_json cookie_path
        = Inl (PyExc Exception (''Cookie file not found at path: '' @ cookie_path))) \<and>
   (\<forall>e. read_json cookie_path = Inl e \<and> exc_cls e = JSONDecodeError \<longrightarrow>
      load_cookies uc read_json cookie_path
        = Inl (PyExc Exception ''Invalid JSON format in the cookie file.'')) \<and>
   (\<forall>items. read_json cookie_path = Inr (JArr items) \<and> list_all well_formed items \<and>
      (\<not> has_credential uc ''__SECURE-1PSID'' items \<or>
       \<not> has_credential uc ''__SECURE-1PSIDTS'' items) \<longrightarrow>
      load_cookies uc read_json cookie_path
        = Inl (PyExc Exception
            ''Required cookies (__Secure-1PSID or __Secure-1PSIDTS) not found. Check the cookie file format and content.'')) \<and>
   (\<forall>items. read_json cookie_path = Inr (JArr items) \<and>
      (\<not> has_credential uc ''__SECURE-1PSID'' items \<or>
       \<not> has_credential uc ''__SECURE-1PSIDTS'' items) \<longrightarrow>
      (\<exists>m. load_cookies uc read_json cookie_path = Inl (PyExc Exception m) \<and>
         (m = ''Required cookies (__Secure-1PSID or __Secure-1PSIDTS) not found. Check the cookie file format and content.'' \<or>
          prefix ''An unexpected error occurred while loading cookies: '' m)))"
proof -
  have 1: "\<forall>a b. load_cookies uc read_json cookie_path = Inr (a, b) \<longrightarrow> truthy a \<and> truthy b"
    by (simp add: load_cookies_Inr_iff load_cookies_try_truthy)
  have 2: "\<forall>e. load_cookies uc read_json cookie_path = Inl e \<longrightarrow>
      exc_cls e = Exception \<and> descriptive cookie_path (exc_msg e)"
  proof (intro allI impI)
    fix e
    assume "load_cookies uc read_json cookie_path = Inl e"
    then obtain e' where "e = load_cookies_except cookie_path e'"
      by (auto simp: load_cookies_def split: sum.splits)
    then show "exc_cls e = Exception \<and> descriptive cookie_path (exc_msg e)"
      by (simp add: load_cookies_except_descriptive)
  qed
  have 3: "\<forall>e. read_json cookie_path = Inl e \<and> is_subclass (exc_cls e) FileNotFoundError \<longrightarrow>
      load_cookies uc read_json cookie_path
        = Inl (PyExc Exception (''Cookie file not found at path: '' @ cookie_path))"
    by (simp add: load_cookies_def load_cookies_try_def load_cookies_except_def)
  have 4: "\<forall>e. read_json cookie_path = Inl e \<and> exc_cls e = JSONDecodeError \<longrightarrow>
      load_cookies uc read_json cookie_path
        = Inl (PyExc Exception ''Invalid JSON format in the cookie file.'')"
    by (simp add: load_cookies_def load_cookies_try_def load_cookies_except_def is_subclass_def)
  have 5: "\<forall>items. read_json cookie_path = Inr (JArr items) \<and> list_all well_formed items \<and>
      (\<not> has_credential uc ''__SECURE-1PSID'' items \<or>
       \<not> has_credential uc ''__SECURE-1PSIDTS'' items) \<longrightarrow>
      load_cookies uc read_json cookie_path
        = Inl (PyExc Exception
            ''Required cookies (__Secure-1PSID or __Secure-1PSIDTS) not found. Check the cookie file format and content.'')"
  proof (intro allI impI)
    fix items
    assume h: "read_json cookie_path = Inr (JArr items) \<and> list_all well_formed items \<and>
      (\<not> has_credential uc ''__SECURE-1PSID'' items \<or>
       \<not> has_credential uc ''__SECURE-1PSIDTS'' items)"
    then obtain a b where a: "next_value uc ''__SECURE-1PSID'' items = Inr a"
        "truthy a \<longrightarrow> has_credential uc ''__SECURE-1PSID'' items"
      and b: "next_value uc ''__SECURE-1PSIDTS'' items = Inr b"
        "truthy b \<longrightarrow> has_credential uc ''__SECURE-1PSIDTS'' items"
      using next_value_well_formed[of items uc "''__SECURE-1PSID''"]
        next_value_well_formed[of items uc "''__SECURE-1PSIDTS''"] by blast
    from h a(2) b(2) have "\<not> truthy a \<or> \<not> truthy b" by blast
    with h a(1) b(1) have "load_cookies_try uc read_json cookie_path
        = Inl (PyExc StopIteration ''Required cookies (__Secure-1PSID or __Secure-1PSIDTS) not found.'')"
      by (auto simp: load_cookies_try_list)
    then show "load_cookies uc read_json cookie_path
        = Inl (PyExc Exception
            ''Required cookies (__Secure-1PSID or __Secure-1PSIDTS) not found. Check the cookie file format and content.'')"
      by (simp add: load_cookies_def load_cookies_except_def is_subclass_def)
  qed
  have 6: "\<forall>items. read_json cookie_path = Inr (JArr items) \<and>
      (\<not> has_credential uc ''__SECURE-1PSID'' items \<or>
       \<not> has_credential uc ''__SECURE-1PSIDTS'' items) \<longrightarrow>
      (\<exists>m. load_cookies uc read_json cookie_path = Inl (PyExc Exception m) \<and>
         (m = ''Required cookies (__Secure-1PSID or __Secure-1PSIDTS) not found. Check the cookie file format and content.'' \<or>
          prefix ''An unexpected error occurred while loading cookies: '' m))"
  proof (intro allI impI)
    fix items
    assume h: "read_json cookie_path = Inr (JArr items) \<and>
        (\<not> has_credential uc ''__SECURE-1PSID'' items \<or>
         \<not> has_credential uc ''__SECURE-1PSIDTS'' items)"
    have "\<not> (\<exists>r. load_cookies_try uc read_json cookie_path = Inr r)"
    proof
      assume "\<exists>r. load_cookies_try uc read_json cookie_path = Inr r"
      then obtain a b where t: "load_cookies_try uc read_json cookie_path = Inr (a, b)" by auto
      then have tr: "truthy a" "truthy b" by (auto dest: load_cookies_try_truthy)
      from t h have nv: "next_value uc ''__SECURE-1PSID'' items = Inr a"
        "next_value uc ''__SECURE-1PSIDTS'' items = Inr b"
        by (auto simp: load_cookies_try_list split: sum.splits if_splits)
      from nv tr have "has_credential uc ''__SECURE-1PSID'' items"
        "has_credential uc ''__SECURE-1PSIDTS'' items"
        by (auto intro: has_credential_earliest next_value_found)
      with h show False by simp
    qed
    then obtain e' where e': "load_cookies_try uc read_json cookie_path = Inl e'"
      by (cases "load_cookies_try uc read_json cookie_path") auto
    then have l: "load_cookies uc read_json cookie_path = Inl (load_cookies_except cookie_path e')"
      by (simp add: load_cookies_def)
    from e' h have cls: "e' = PyExc StopIteration ''Required cookies (__Secure-1PSID or __Secure-1PSIDTS) not found.''
        \<or> exc_cls e' \<in> {KeyError, TypeError, AttributeError}"
      using next_value_raises[of uc "''__SECURE-1PSID''" items]
        next_value_raises[of uc "''__SECURE-1PSIDTS''" items]
      by (auto simp: load_cookies_try_list split: sum.splits if_splits)
    then show "\<exists>m. load_cookies uc read_json cookie_path = Inl (PyExc Exception m) \<and>
         (m = ''Required cookies (__Secure-1PSID or __Secure-1PSIDTS) not found. Check the cookie file format and content.'' \<or>
          prefix ''An unexpected error occurred while loading cookies: '' m)"
      using l by (auto simp: load_cookies_except_def is_subclass_def prefix_def)
  qed
  from 1 2 3 4 5 6 show ?thesis by (intro conjI)
qed

text \<open>An absent file, a file that is not JSON, and a list whose second token is empty.\<close>

theorem load_cookies_failure_witness:
  "load_cookies upper_table_excerpt no_file ''cookies.json''
     = Inl (PyExc Exception ''Cookie file not found at path: cookies.json'') \<and>
   load_cookies upper_table_excerpt bad_json ''cookies.json''
     = Inl (PyExc Exception ''Invalid JSON format in the cookie file.'') \<and>
   load_cookies upper_table_excerpt (file_with (JArr incomplete_cookies)) ''cookies.json''
     = Inl (PyExc Exception
         ''Required cookies (__Secure-1PSID or __Secure-1PSIDTS) not found. Check the cookie file format and content.'')"
proof -
  have 1: "no_file ''cookies.json'' = Inl (PyExc FileNotFoundError ''No such file or directory'') \<and>
     is_subclass (exc_cls (PyExc FileNotFoundError ''No such file or directory'')) FileNotFoundError"
    by (simp add: no_file_def is_subclass_def)
  have 2: "bad_json ''cookies.json'' = Inl (PyExc JSONDecodeError ''Expecting value'') \<and>
     exc_cls (PyExc JSONDecodeError ''Expecting value'') = JSONDecodeError"
    by (simp add: bad_json_def)
  have 3: "file_with (JArr incomplete_cookies) ''cookies.json'' = Inr (JArr incomplete_cookies) \<and>
     list_all well_formed incomplete_cookies \<and>
     (\<not> has_credential upper_table_excerpt ''__SECURE-1PSID'' incomplete_cookies \<or>
      \<not> has_credential upper_table_excerpt ''__SECURE-1PSIDTS'' incomplete_cookies)"
    by (simp add: incomplete_cookies_def example_simps)
  from load_cookies_failure[of upper_table_excerpt no_file "''cookies.json''"] 1
  have a: "load_cookies upper_table_excerpt no_file ''cookies.json''
     = Inl (PyExc Exception (''Cookie file not found at path: '' @ ''cookies.json''))" by blast
  from load_cookies_failure[of upper_table_excerpt bad_json "''cookies.json''"] 2
  have b: "load_cookies upper_table_excerpt bad_json ''cookies.json''
     = Inl (PyExc Exception ''Invalid JSON format in the cookie file.'')" by blast
  from load_cookies_failure[of upper_table_excerpt "file_with (JArr incomplete_cookies)" "''cookies.json''"] 3
  have c: "load_cookies upper_table_excerpt (file_with (JArr incomplete_cookies)) ''cookies.json''
     = Inl (PyExc Exception
         ''Required cookies (__Secure-1PSID or __Secure-1PSIDTS) not found. Check the cookie file format and content.'')"
    by blast
  from a b c show ?thesis by simp
qed

section \<open>Properties of the enums\<close>

lemma from_name_loop_Some:
  "from_name_loop name ms = Some m \<Longrightarrow> model_name m = name \<and> m \<in> set ms"
  by (induction ms) (auto split: if_splits)

lemma from_name_loop_None:
  "from_name_loop name ms = None \<longleftrightarrow> (\<forall>m\<in>set ms. model_name m \<noteq> name)"
  by (induction ms) auto

lemma Model_members_all: "set Model_members = UNIV"
proof -
  have "m \<in> set Model_members" for m
    by (cases m) (simp_all add: Model_members_def)
  then show ?thesis by auto
qed

lemma model_names_distinct: "distinct (map model_name Model_members)"
  by (simp add: Model_members_def model_name_def)

lemma from_name_member: "from_name (model_name m) = Inr m"
  by (cases m) (simp_all add: from_name_def Model_members_def model_name_def)

text \<open>
  Claim C4. The members of \<open>Model\<close> are the seven that iterating the class gives, their
  model names are pairwise distinct, \<open>from_name name\<close> returns a member exactly when
  that member's model name is \<open>name\<close>, and for a name that no member has it raises
  \<^verbatim>\<open>ValueError\<close>: there is no default model.
\<close>

theorem from_name_lookup:
  "distinct (map model_name Model_members) \<and> set Model_members = UNIV \<and>
   (\<forall>name m. from_name name = Inr m \<longleftrightarrow> model_name m = name) \<and>
   (\<forall>name. (\<forall>m. model_name m \<noteq> name) \<longrightarrow>
      from_name name = Inl (PyExc ValueError
        (''Unknown model name: '' @ name @ ''. Available models: '' @
         py_join '', '' (map model_name Model_members))))"
proof -
  have a: "\<forall>name m. from_name name = Inr m \<longleftrightarrow> model_name m = name"
  proof (intro allI iffI)
    fix name m
    assume "from_name name = Inr m"
    then have "from_name_loop name Model_members = Some m"
      by (simp add: from_name_def split: option.splits)
    then show "model_name m = name" by (simp add: from_name_loop_Some)
  next
    fix name m
    assume "model_name m = name"
    then show "from_name name = Inr m" using from_name_member[of m] by simp
  qed
  have b: "\<forall>name. (\<forall>m. model_name m \<noteq> name) \<longrightarrow>
      from_name name = Inl (PyExc ValueError
        (''Unknown model name: '' @ name @ ''. Available models: '' @
         py_join '', '' (map model_name Model_members)))"
  proof (intro allI impI)
    fix name
    assume "\<forall>m. model_name m \<noteq> name"
    then have "from_name_loop name Model_members = None"
      by (simp add: from_name_loop_None)
    then show "from_name name = Inl (PyExc ValueError
        (''Unknown model name: '' @ name @ ''. Available models: '' @
         py_join '', '' (map model_name Model_members)))"
      by (simp add: from_name_def)
  qed
  from model_names_distinct Model_members_all a b show ?thesis by (intro conjI)
qed

text \<open>A model name that exists and one that does not.\<close>

theorem from_name_lookup_witness:
  "from_name ''gemini-2.5-pro'' = Inr G_2_5_PRO \<and>
   from_name ''gemini-3'' = Inl (PyExc ValueError
     ''Unknown model name: gemini-3. Available models: unspecified, gemini-2.0-flash, gemini-2.0-flash-thinking, gemini-2.5-flash, gemini-2.5-pro, gemini-2.0-exp-advanced, gemini-2.5-exp-advanced'')"
proof -
  have 1: "model_name G_2_5_PRO = ''gemini-2.5-pro''" by (simp add: model_name_def)
  have 2: "\<forall>m. model_name m \<noteq> ''gemini-3''"
  proof
    fix m show "model_name m \<noteq> ''gemini-3''" by (cases m) (simp_all add: model_name_def)
  qed
  from from_name_lookup 1 have x: "from_name ''gemini-2.5-pro'' = Inr G_2_5_PRO" by blast
  from from_name_lookup 2 have "from_name ''gemini-3'' = Inl (PyExc ValueError
        (''Unknown model name: '' @ ''gemini-3'' @ ''. Available models: '' @
         py_join '', '' (map model_name Model_members)))" by blast
  then have y: "from_name ''gemini-3'' = Inl (PyExc ValueError
     ''Unknown model name: gemini-3. Available models: unspecified, gemini-2.0-flash, gemini-2.0-flash-thinking, gemini-2.5-flash, gemini-2.5-pro, gemini-2.0-exp-advanced, gemini-2.5-exp-advanced'')"
    by (simp add: Model_members_def model_name_def)
  from x y show ?thesis by simp
qed

text \<open>
  Claim C7. The headers of the generate requests hold \<^verbatim>\<open>X-Same-Domain: 1\<close> and a
  \<^verbatim>\<open>Content-Type\<close> whose media type is \<^verbatim>\<open>application/x-www-form-urlencoded\<close>; the
  headers of the rotation request declare \<^verbatim>\<open>application/json\<close>; the two media types
  differ.
\<close>

theorem headers_encodings:
  "map_of (Headers_value Headers_GEMINI) ''X-Same-Domain'' = Some ''1'' \<and>
   map_of (Headers_value Headers_GEMINI) ''Content-Type''
     = Some ''application/x-www-form-urlencoded;charset=utf-8'' \<and>
   media_type ''application/x-www-form-urlencoded;charset=utf-8''
     = ''application/x-www-form-urlencoded'' \<and>
   map_of (Headers_value Headers_ROTATE_COOKIES) ''Content-Type'' = Some ''application/json'' \<and>
   media_type ''application/json'' = ''application/json'' \<and>
   media_type ''application/x-www-form-urlencoded;charset=utf-8'' \<noteq> media_type ''application/json''"
  by (simp add: media_type_def)

section \<open>Properties of upload\_file\<close>

text \<open>
  Claim C8, as amended. When the file argument is a path for which \<^verbatim>\<open>is_file()\<close>
  answers \<^verbatim>\<open>False\<close>, \<open>upload_file\<close> raises \<^verbatim>\<open>FileNotFoundError\<close> itself, not another
  kind of error around it. When \<^verbatim>\<open>is_file()\<close> raises, as it does for a path that the
  system cannot examine, that error leaves \<open>upload_file\<close> unchanged instead. In both
  cases no request has been made: the trace is empty.
\<close>

theorem upload_file_missing_path:
  "(is_file env file_path = Inr False \<longrightarrow>
      upload_file env (FilePath file_path) prx imp
        = ([], Inl (PyExc FileNotFoundError (''File not found at path: '' @ file_path)))) \<and>
   (\<forall>e. is_file env file_path = Inl e \<longrightarrow>
      upload_file env (FilePath file_path) prx imp = ([], Inl e)) \<and>
   (is_file env file_path \<noteq> Inr True \<longrightarrow>
      network_requests (fst (upload_file env (FilePath file_path) prx imp)) = [])"
proof -
  have 1: "is_file env file_path = Inr False \<longrightarrow>
      upload_file env (FilePath file_path) prx imp
        = ([], Inl (PyExc FileNotFoundError (''File not found at path: '' @ file_path)))"
    by (simp add: upload_file_def)
  have 2: "\<forall>e. is_file env file_path = Inl e \<longrightarrow>
      upload_file env (FilePath file_path) prx imp = ([], Inl e)"
    by (simp add: upload_file_def)
  have 3: "is_file env file_path \<noteq> Inr True \<longrightarrow>
      network_requests (fst (upload_file env (FilePath file_path) prx imp)) = []"
    by (cases "is_file env file_path") (auto simp: upload_file_def)
  from 1 2 3 show ?thesis by (intro conjI)
qed

text \<open>A path on a disk without files, and a path on a disk that may not be examined.\<close>

theorem upload_file_missing_path_witness:
  "upload_file empty_disk (FilePath ''photo.png'') ProxyNone ''chrome110''
     = ([], Inl (PyExc FileNotFoundError ''File not found at path: photo.png'')) \<and>
   upload_file locked_disk (FilePath ''photo.png'') ProxyNone ''chrome110''
     = ([], Inl (PyExc OSError ''[Errno 13] Permission denied''))"
proof -
  have a: "is_file empty_disk ''photo.png'' = Inr False" by (simp add: empty_disk_def)
  have b: "is_file locked_disk ''photo.png'' = Inl (PyExc OSError ''[Errno 13] Permission denied'')"
    by (simp add: locked_disk_def empty_disk_def)
  from upload_file_missing_path[of empty_disk "''photo.png''" ProxyNone "''chrome110''"] a
  have 1: "upload_file empty_disk (FilePath ''photo.png'') ProxyNone ''chrome110''
     = ([], Inl (PyExc FileNotFoundError (''File not found at path: '' @ ''photo.png'')))" by blast
  from upload_file_missing_path[of locked_disk "''photo.png''" ProxyNone "''chrome110''"] b
  have 2: "upload_file locked_disk (FilePath ''photo.png'') ProxyNone ''chrome110''
     = ([], Inl (PyExc OSError ''[Errno 13] Permission denied''))" by blast
  from 1 2 show ?thesis by simp
qed

text \<open>
  Claim C8, as stated, fails for a path that does not name an existing file and cannot
  be examined either: for a name of 5000 characters \<^verbatim>\<open>is_file()\<close> raises the
  \<^verbatim>\<open>OSError\<close> of the system call, and \<open>upload_file\<close> raises that error, which is not a
  \<^verbatim>\<open>FileNotFoundError\<close>.
\<close>

theorem upload_file_long_path_counterexample:
  "length long_path = 5000 \<and>
   upload_file name_limit_disk (FilePath long_path) ProxyNone ''chrome110''
     = ([], Inl (PyExc OSError ''[Errno 36] File name too long'')) \<and>
   \<not> is_subclass OSError FileNotFoundError"
  by (simp add: upload_file_def name_limit_disk_def empty_disk_def long_path_def is_subclass_def)

section \<open>Properties of Image.save\<close>

subsection \<open>Paths and file names\<close>

lemma splitext_append: "splitext p = (name, ext) \<Longrightarrow> name @ ext = p"
  by (auto simp: splitext_def Let_def split: if_splits)

lemma truncate_filename_short_ext:
  assumes "length filename > 255" and "splitext filename = (name, ext)" and "length ext \<le> 254"
  shows "truncate_filename filename = take (254 - length ext) name @ ext"
proof -
  have "py_slice_to name (255 - int (length ext) - 1) = take (254 - length ext) name"
    using assms(3) by (simp add: py_slice_to_def nat_diff_distrib')
  with assms(1,2) show ?thesis by (simp add: truncate_filename_def)
qed

lemma Image_save_derived:
  assumes "unquote_url_path env (url self) = Inr p"
    and "re_sub_unsafe (basename p) \<noteq> []"
    and "path_ctor env (re_sub_unsafe (basename p)) = None"
  shows "Image_save env self dir None cks verbose skip
           = Image_download env self dir (truncate_filename (re_sub_unsafe (basename p))) cks"
  using assms by (simp add: Image_save_def derive_filename_def check_filename_def)

lemma rfind_absent: "c \<notin> set s \<Longrightarrow> rfind c s = - 1"
  by (simp add: rfind_def)

lemma rfind_last: "c \<notin> set t \<Longrightarrow> rfind c (s @ c # t) = int (length s)"
proof -
  assume a: "c \<notin> set t"
  then have "takeWhile (\<lambda>x. x \<noteq> c) (rev t @ c # rev s) = rev t"
    by (induction t rule: rev_induct) auto
  then show ?thesis by (simp add: rfind_def)
qed

lemma basename_last: "CHR ''/'' \<notin> set f \<Longrightarrow> basename (d @ CHR ''/'' # f) = f"
  by (simp add: basename_def rfind_last nat_add_distrib)

lemma re_sub_unsafe_safe:
  "\<forall>c\<in>set s. c \<notin> set ''<>:\"/|?*'' \<Longrightarrow> re_sub_unsafe s = s"
  unfolding re_sub_unsafe_def by (induction s) auto

lemma splitext_loop_iff:
  "splitext_loop p i d \<longleftrightarrow> (\<exists>j. i \<le> j \<and> j < d \<and> take 1 (drop j p) \<noteq> ''.'')"
proof (induction p i d rule: splitext_loop.induct)
  case (1 p i d)
  show ?case
  proof (cases "i < d")
    case False
    then show ?thesis by (subst splitext_loop.simps) auto
  next
    case True
    show ?thesis
    proof (cases "take 1 (drop i p) \<noteq> ''.''")
      case nd: True
      with True show ?thesis by (subst splitext_loop.simps) auto
    next
      case dot: False
      with True 1 have "splitext_loop p (i + 1) d \<longleftrightarrow>
          (\<exists>j. i + 1 \<le> j \<and> j < d \<and> take 1 (drop j p) \<noteq> ''.'')" by simp
      moreover have "(\<exists>j. i + 1 \<le> j \<and> j < d \<and> take 1 (drop j p) \<noteq> ''.'') \<longleftrightarrow>
          (\<exists>j. i \<le> j \<and> j < d \<and> take 1 (drop j p) \<noteq> ''.'')"
        using dot by (metis Suc_eq_plus1 Suc_leI le_neq_implies_less Suc_leD)
      ultimately show ?thesis using True dot by (subst splitext_loop.simps) simp
    qed
  qed
qed

lemma splitext_simple:
  assumes "CHR ''/'' \<notin> set s" and "CHR ''/'' \<notin> set t" and "CHR ''.'' \<notin> set t"
    and "\<exists>c\<in>set s. c \<noteq> CHR ''.''"
  shows "splitext (s @ CHR ''.'' # t) = (s, CHR ''.'' # t)"
proof -
  let ?p = "s @ CHR ''.'' # t"
  have sep: "rfind (CHR ''/'') ?p = - 1" using assms(1,2) by (simp add: rfind_absent)
  have dot: "rfind (CHR ''.'') ?p = int (length s)" using assms(3) by (rule rfind_last)
  from assms(4) obtain j where j: "j < length s" "s ! j \<noteq> CHR ''.''"
    by (auto simp: in_set_conv_nth)
  then have "take 1 (drop j ?p) = [s ! j]"
    by (simp add: Cons_nth_drop_Suc[symmetric])
  with j have "splitext_loop ?p 0 (length s)"
    by (auto simp: splitext_loop_iff)
  with sep dot show ?thesis by (simp add: splitext_def)
qed

lemma Image_download_web_serving:
  "Image_download (web_serving p) (picture u) d f c
     = ([NetGet \<lparr>get_url = u, get_cookies = c, get_proxies = None, get_impersonate = ''chrome110''\<rparr>,
         DiskMkdir d, DiskWrite d f ''image-bytes''],
        Inr (Some (''/home/user/'' @ d @ ''/'' @ f)))"
  by (simp add: Image_download_def web_serving_def picture_def proxies_dict_def)

lemma long_stem_split:
  "splitext long_stem = (replicate 508 (CHR ''a''), ''.jpg'')"
  unfolding long_stem_def by (rule splitext_simple) simp_all

lemma long_stem_safe: "re_sub_unsafe long_stem = long_stem"
  by (rule re_sub_unsafe_safe) (auto simp: long_stem_def)

lemma long_stem_basename: "basename (CHR ''/'' # long_stem) = long_stem"
  using basename_last[of long_stem "[]"] by (simp add: long_stem_def)

lemma long_extension_split:
  "splitext long_extension = (''a'', CHR ''.'' # replicate 510 (CHR ''b''))"
  using splitext_simple[of "''a''" "replicate 510 (CHR ''b'')"] by (simp add: long_extension_def)

lemma long_extension_safe: "re_sub_unsafe long_extension = long_extension"
  by (rule re_sub_unsafe_safe) (auto simp: long_extension_def)

lemma long_extension_basename: "basename (CHR ''/'' # long_extension) = long_extension"
  using basename_last[of long_extension "[]"] by (simp add: long_extension_def)

lemma long_extension_truncated:
  "truncate_filename long_extension = CHR ''.'' # replicate 510 (CHR ''b'')"
proof -
  have "length long_extension = 512" by (simp add: long_extension_def)
  then show ?thesis
    by (simp add: truncate_filename_def long_extension_split py_slice_to_def)
qed

subsection \<open>Truncation\<close>

text \<open>
  Claim C5, as amended. When the file name derived from the URL has more than 255
  characters, \<^verbatim>\<open>Path\<close> accepts it, and its extension (what \<^verbatim>\<open>os.path.splitext\<close> splits
  off, the dot included) has at most 254 characters, \<open>save\<close> downloads under the name
  made of the first \<open>254 - length ext\<close> characters of the stem and the whole extension:
  a name of at most 254 characters that ends with the extension of the original name.
\<close>

theorem Image_save_truncates:
  assumes "unquote_url_path env (url self) = Inr p"
    and "length (re_sub_unsafe (basename p)) > 255"
    and "path_ctor env (re_sub_unsafe (basename p)) = None"
    and "splitext (re_sub_unsafe (basename p)) = (name, ext)"
    and "length ext \<le> 254"
  shows "Image_save env self dir None cks verbose skip
           = Image_download env self dir (take (254 - length ext) name @ ext) cks \<and>
         length (take (254 - length ext) name @ ext) \<le> 255 \<and>
         suffix ext (take (254 - length ext) name @ ext) \<and>
         name @ ext = re_sub_unsafe (basename p)"
proof -
  from assms(2) have ne: "re_sub_unsafe (basename p) \<noteq> []" by auto
  have "truncate_filename (re_sub_unsafe (basename p)) = take (254 - length ext) name @ ext"
    using assms(2,4,5) by (rule truncate_filename_short_ext)
  with Image_save_derived[OF assms(1) ne assms(3)]
  have "Image_save env self dir None cks verbose skip
           = Image_download env self dir (take (254 - length ext) name @ ext) cks" by simp
  moreover have "length (take (254 - length ext) name @ ext) \<le> 255" using assms(5) by simp
  moreover have "suffix ext (take (254 - length ext) name @ ext)" by (simp add: suffix_def)
  moreover have "name @ ext = re_sub_unsafe (basename p)" using assms(4) by (rule splitext_append)
  ultimately show ?thesis by simp
qed

text \<open>A name of 508 letters and \<^verbatim>\<open>.jpg\<close>: 250 letters are kept.\<close>

theorem Image_save_truncates_witness:
  "Image_save (web_serving (CHR ''/'' # long_stem)) (picture (''https://example.com/'' @ long_stem))
      ''downloaded_images'' None None False True
     = Image_download (web_serving (CHR ''/'' # long_stem)) (picture (''https://example.com/'' @ long_stem))
         ''downloaded_images'' (replicate 250 (CHR ''a'') @ ''.jpg'') None \<and>
   length long_stem = 512 \<and>
   length (replicate 250 (CHR ''a'') @ ''.jpg'') = 254"
proof -
  let ?env = "web_serving (CHR ''/'' # long_stem)"
  let ?img = "picture (''https://example.com/'' @ long_stem)"
  have len: "length long_stem = 512" by (simp add: long_stem_def)
  have 1: "unquote_url_path ?env (url ?img) = Inr (CHR ''/'' # long_stem)"
    by (simp add: web_serving_def)
  have 2: "length (re_sub_unsafe (basename (CHR ''/'' # long_stem))) > 255"
    by (simp add: long_stem_basename long_stem_safe len)
  have 3: "path_ctor ?env (re_sub_unsafe (basename (CHR ''/'' # long_stem))) = None"
    by (simp add: web_serving_def)
  have 4: "splitext (re_sub_unsafe (basename (CHR ''/'' # long_stem))) = (replicate 508 (CHR ''a''), ''.jpg'')"
    by (simp add: long_stem_basename long_stem_safe long_stem_split)
  have 5: "length ''.jpg'' \<le> 254" by simp
  have 6: "take (254 - length ''.jpg'') (replicate 508 (CHR ''a'')) = replicate 250 (CHR ''a'')"
    by simp
  from Image_save_truncates[OF 1 2 3 4 5, of "''downloaded_images''" None False True]
  have "Image_save ?env ?img ''downloaded_images'' None None False True
     = Image_download ?env ?img ''downloaded_images''
         (take (254 - length ''.jpg'') (replicate 508 (CHR ''a'')) @ ''.jpg'') None" by blast
  then have "Image_save ?env ?img ''downloaded_images'' None None False True
     = Image_download ?env ?img ''downloaded_images'' (replicate 250 (CHR ''a'') @ ''.jpg'') None"
    by (simp only: 6)
  moreover have "length (replicate 250 (CHR ''a'') @ ''.jpg'') = 254" by simp
  ultimately show ?thesis using len by blast
qed

text \<open>
  Claim C5, as stated, fails for a long extension. The derived name below has 512
  characters, 511 of them its extension; the bound of the slice is negative, the stem is
  cut to nothing, and the file is written under the extension alone, 511 characters.
\<close>

theorem Image_save_long_extension_counterexample:
  "length long_extension = 512 \<and>
   derive_filename (web_serving (CHR ''/'' # long_extension)) (''https://example.com/'' @ long_extension)
     = (long_extension, 0) \<and>
   Image_save (web_serving (CHR ''/'' # long_extension)) (picture (''https://example.com/'' @ long_extension))
      ''downloaded_images'' None None False True
     = ([NetGet \<lparr>get_url = ''https://example.com/'' @ long_extension, get_cookies = None,
                  get_proxies = None, get_impersonate = ''chrome110''\<rparr>,
         DiskMkdir ''downloaded_images'',
         DiskWrite ''downloaded_images'' (CHR ''.'' # replicate 510 (CHR ''b'')) ''image-bytes''],
        Inr (Some (''/home/user/downloaded_images/'' @ CHR ''.'' # replicate 510 (CHR ''b'')))) \<and>
   length (CHR ''.'' # replicate 510 (CHR ''b'')) = 511"
proof -
  let ?env = "web_serving (CHR ''/'' # long_extension)"
  let ?img = "picture (''https://example.com/'' @ long_extension)"
  have n: "long_extension \<noteq> []" by (simp add: long_extension_def)
  have l: "length long_extension = 512" by (simp add: long_extension_def)
  have u: "unquote_url_path ?env u = Inr (CHR ''/'' # long_extension)" for u
    by (simp add: web_serving_def)
  have d: "derive_filename ?env u = (long_extension, 0)" for u
    by (simp add: derive_filename_def u long_extension_basename long_extension_safe n)
  have pc: "path_ctor ?env f = None" for f by (simp add: web_serving_def)
  have "Image_save ?env ?img ''downloaded_images'' None None False True
     = Image_download ?env ?img ''downloaded_images'' (CHR ''.'' # replicate 510 (CHR ''b'')) None"
    by (simp add: Image_save_def d check_filename_def pc long_extension_truncated)
  then have s: "Image_save ?env ?img ''downloaded_images'' None None False True
     = ([NetGet \<lparr>get_url = ''https://example.com/'' @ long_extension, get_cookies = None,
                  get_proxies = None, get_impersonate = ''chrome110''\<rparr>,
         DiskMkdir ''downloaded_images'',
         DiskWrite ''downloaded_images'' (CHR ''.'' # replicate 510 (CHR ''b'')) ''image-bytes''],
        Inr (Some (''/home/user/downloaded_images/'' @ CHR ''.'' # replicate 510 (CHR ''b''))))"
    by (simp only: Image_download_web_serving) simp
  have "length (CHR ''.'' # replicate 510 (CHR ''b'')) = 511" by simp
  with l d s show ?thesis by (intro conjI)
qed

subsection \<open>Unsafe characters and skipped saves\<close>

lemma re_sub_unsafe_replaces:
  "c \<in> set ''<>:\"/|?*'' \<Longrightarrow> c \<notin> set (re_sub_unsafe s)"
  unfolding re_sub_unsafe_def by (induction s) auto

lemma re_sub_unsafe_length: "length (re_sub_unsafe s) = length s"
  by (simp add: re_sub_unsafe_def)

lemma Image_save_skips:
  assumes "filename \<noteq> []" and "path_ctor env filename = Some e"
    and "is_subclass (exc_cls e) OSError \<or> is_subclass (exc_cls e) ValueError"
  shows "Image_save env self d (Some filename) c verbose True = ([], Inr None)"
  using assms by (simp add: Image_save_def check_filename_def)

lemma Image_save_derived_skips:
  assumes "path_ctor env (fst (derive_filename env (url self))) = Some e"
    and "is_subclass (exc_cls e) OSError \<or> is_subclass (exc_cls e) ValueError"
  shows "Image_save env self d None c verbose True = ([], Inr None)"
  using assms by (cases "derive_filename env (url self)") (simp add: Image_save_def check_filename_def)

lemma refused_name_skipped:
  "Image_save (web_refusing_names p) (picture u) d None c verbose True = ([], Inr None)"
  by (rule Image_save_derived_skips[where e = "PyExc ValueError ''embedded null character''"])
     (simp_all add: web_refusing_names_def web_serving_def is_subclass_def)

lemma backslash_name_derived:
  "derive_filename (web_serving (CHR ''/'' # backslash_name)) u = (backslash_name, 0)"
  by (simp add: derive_filename_def web_serving_def backslash_name_def basename_def rfind_def
      re_sub_unsafe_def)

text \<open>
  Claim C6, evaluated where the code departs from it. The path basename
  \<^verbatim>\<open>a\b.jpg\<close> holds a backslash, one of the characters the claim lists; the character
  class of the substitution does not hold it (\<open>re_sub_unsafe_replaces\<close> covers the eight
  it holds), so the name is derived unchanged and the file is written under it.
\<close>

theorem derive_filename_keeps_backslash:
  "derive_filename (web_serving (CHR ''/'' # backslash_name)) ''https://example.com/a%5Cb.jpg''
     = (backslash_name, 0) \<and>
   CHR 0x5C \<in> set backslash_name \<and>
   Image_save (web_serving (CHR ''/'' # backslash_name)) (picture ''https://example.com/a%5Cb.jpg'')
      ''downloaded_images'' None None False True
     = ([NetGet \<lparr>get_url = ''https://example.com/a%5Cb.jpg'', get_cookies = None,
                  get_proxies = None, get_impersonate = ''chrome110''\<rparr>,
         DiskMkdir ''downloaded_images'',
         DiskWrite ''downloaded_images'' backslash_name ''image-bytes''],
        Inr (Some (''/home/user/downloaded_images/'' @ backslash_name)))"
proof -
  have t: "truncate_filename backslash_name = backslash_name"
    by (simp add: truncate_filename_def backslash_name_def)
  have pc: "path_ctor (web_serving p) f = None" for p f by (simp add: web_serving_def)
  have u: "url (picture v) = v" for v by (simp add: picture_def)
  have "Image_save (web_serving (CHR ''/'' # backslash_name)) (picture ''https://example.com/a%5Cb.jpg'')
      ''downloaded_images'' None None False True
     = Image_download (web_serving (CHR ''/'' # backslash_name)) (picture ''https://example.com/a%5Cb.jpg'')
      ''downloaded_images'' backslash_name None"
    by (simp add: Image_save_def backslash_name_derived check_filename_def pc t)
  then show ?thesis
    by (simp add: backslash_name_derived Image_download_web_serving) (simp add: backslash_name_def)
qed

section \<open>Properties of GeneratedImage\<close>

lemma downloads_Image_download:
  "r \<in> set (downloads (fst (Image_download env self d f c))) \<Longrightarrow> get_cookies r = c"
  by (auto simp: Image_download_def Let_def split: sum.splits option.splits)

lemma downloads_Image_save:
  "r \<in> set (downloads (fst (Image_save env self d f c verbose skip))) \<Longrightarrow> get_cookies r = c"
  by (auto simp: Image_save_def split: prod.splits sum.splits option.splits
      dest: downloads_Image_download)

lemma downloads_GeneratedImage_save:
  "r \<in> set (downloads (fst (GeneratedImage_save env now self kwargs))) \<Longrightarrow>
   get_cookies r = Some (cookies self)"
  by (auto simp: GeneratedImage_save_def Let_def split: if_splits dest: downloads_Image_save)

lemma GeneratedImage_init_Inr:
  assumes "GeneratedImage_init img arg = Inr g"
  shows "cookies g \<noteq> [] \<and> (\<exists>raw. arg = Some raw \<and> as_str_dict raw = Some (cookies g)) \<and>
         Image.truncate g = img"
  using assms
  by (auto simp: GeneratedImage_init_def validate_cookies_def Image.extend_def Image.truncate_def
      GeneratedImage.fields_def split: option.splits if_splits)

lemma as_str_dict_non_dict: "\<forall>kv. raw \<noteq> JObj kv \<Longrightarrow> as_str_dict raw = None"
  by (cases raw) (auto simp: as_str_dict_def)

text \<open>
  Claim C10. Constructing a \<open>GeneratedImage\<close> with an empty dict or with a value that
  is not a dict for \<^verbatim>\<open>cookies\<close> fails with a \<^verbatim>\<open>ValueError\<close>; an image that has been
  constructed carries a non-empty cookie dict, the one given; and every download that
  \<open>GeneratedImage.save\<close> makes is made with exactly the cookies of the image.
\<close>

theorem GeneratedImage_cookies:
  "(\<forall>img raw. (raw = JObj [] \<or> (\<forall>kv. raw \<noteq> JObj kv)) \<longrightarrow>
      (\<exists>m. GeneratedImage_init img (Some raw) = Inl (PyExc ValueError m))) \<and>
   (\<forall>img arg g. GeneratedImage_init img arg = Inr g \<longrightarrow>
      cookies g \<noteq> [] \<and> (\<exists>raw. arg = Some raw \<and> as_str_dict raw = Some (cookies g))) \<and>
   (\<forall>env now g kwargs. \<forall>r\<in>set (downloads (fst (GeneratedImage_save env now g kwargs))).
      get_cookies r = Some (cookies g))"
proof -
  have 1: "\<forall>img raw. (raw = JObj [] \<or> (\<forall>kv. raw \<noteq> JObj kv)) \<longrightarrow>
      (\<exists>m. GeneratedImage_init img (Some raw) = Inl (PyExc ValueError m))"
  proof (intro allI impI)
    fix img raw
    assume "raw = JObj [] \<or> (\<forall>kv. raw \<noteq> JObj kv)"
    then show "\<exists>m. GeneratedImage_init img (Some raw) = Inl (PyExc ValueError m)"
    proof
      assume "raw = JObj []"
      then show ?thesis
        by (simp add: GeneratedImage_init_def as_str_dict_def validate_cookies_def)
    next
      assume "\<forall>kv. raw \<noteq> JObj kv"
      then have "as_str_dict raw = None" by (rule as_str_dict_non_dict)
      then show ?thesis by (simp add: GeneratedImage_init_def)
    qed
  qed
  have 2: "\<forall>img arg g. GeneratedImage_init img arg = Inr g \<longrightarrow>
      cookies g \<noteq> [] \<and> (\<exists>raw. arg = Some raw \<and> as_str_dict raw = Some (cookies g))"
    using GeneratedImage_init_Inr by blast
  have 3: "\<forall>env now g kwargs. \<forall>r\<in>set (downloads (fst (GeneratedImage_save env now g kwargs))).
      get_cookies r = Some (cookies g)"
    using downloads_GeneratedImage_save by blast
  from 1 2 3 show ?thesis by (intro conjI)
qed

lemma generated_picture_name1:
  "\<not> py_in ''.jpg'' (py_lower ''https://lh3.googleusercontent.com/gen/abc123.png'')"
  by (simp add: py_lower_def lower_char_def)

lemma generated_picture_name2:
  "take 10 (split_last ''https://lh3.googleusercontent.com/gen/abc123.png'') = ''abc123.png''"
  by (simp add: split_last_def)

lemma short_name_kept: "length f \<le> 255 \<Longrightarrow> truncate_filename f = f"
  by (simp add: truncate_filename_def)

lemma generated_picture_saved:
  "GeneratedImage_save (web_serving []) ''20250101120000'' generated_picture no_kwargs
     = ([NetGet \<lparr>get_url = ''https://lh3.googleusercontent.com/gen/abc123.png'',
                  get_cookies = Some [(''__Secure-1PSID'', ''sid-value'')],
                  get_proxies = None, get_impersonate = ''chrome110''\<rparr>,
         DiskMkdir ''downloaded_images'',
         DiskWrite ''downloaded_images'' ''20250101120000_abc123.png.png'' ''image-bytes''],
        Inr (Some ''/home/user/downloaded_images/20250101120000_abc123.png.png''))"
proof -
  have p: "Image.truncate generated_picture = picture ''https://lh3.googleusercontent.com/gen/abc123.png''\<lparr>title := ''[Generated]''\<rparr>"
    by (simp add: generated_picture_def picture_def Image.truncate_def)
  have d: "Image_download (web_serving []) (picture u\<lparr>title := t\<rparr>) dir f c
     = ([NetGet \<lparr>get_url = u, get_cookies = c, get_proxies = None, get_impersonate = ''chrome110''\<rparr>,
         DiskMkdir dir, DiskWrite dir f ''image-bytes''],
        Inr (Some (''/home/user/'' @ dir @ ''/'' @ f)))" for u t dir f c
    by (simp add: Image_download_def web_serving_def picture_def proxies_dict_def)
  have pc: "path_ctor (web_serving []) f = None" for f by (simp add: web_serving_def)
  have u: "url generated_picture = ''https://lh3.googleusercontent.com/gen/abc123.png''"
    "cookies generated_picture = [(''__Secure-1PSID'', ''sid-value'')]"
    by (simp_all add: generated_picture_def)
  have k: "kw_filename no_kwargs = None" "kw_cookies no_kwargs = None" "kw_unexpected no_kwargs = []"
    "kw_path no_kwargs = None" "kw_verbose no_kwargs = None" "kw_skip_invalid_filename no_kwargs = None"
    by (simp_all add: no_kwargs_def)
  have t: "truncate_filename ''20250101120000_abc123.png.png'' = ''20250101120000_abc123.png.png''"
    by (rule short_name_kept) simp
  show ?thesis
    by (simp add: GeneratedImage_save_def u k generated_picture_name1 generated_picture_name2 p Image_save_def
        check_filename_def pc t d)
qed

text \<open>
  An empty dict, a string in place of the dict, and a save of a generated image that
  downloads once.
\<close>

theorem GeneratedImage_cookies_witness:
  "(\<exists>m. GeneratedImage_init (picture ''https://example.com/g.png'') (Some (JObj []))
          = Inl (PyExc ValueError m)) \<and>
   (\<exists>m. GeneratedImage_init (picture ''https://example.com/g.png'') (Some (JStr ''SID=abc''))
          = Inl (PyExc ValueError m)) \<and>
   map get_cookies (downloads (fst (GeneratedImage_save (web_serving []) ''20250101120000''
        generated_picture no_kwargs)))
     = [Some (cookies generated_picture)]"
proof -
  note main = GeneratedImage_cookies
  have a: "JObj [] = JObj [] \<or> (\<forall>kv. JObj [] \<noteq> JObj kv)" by simp
  have b: "JStr ''SID=abc'' = JObj [] \<or> (\<forall>kv. JStr ''SID=abc'' \<noteq> JObj kv)" by simp
  from main a have 1: "\<exists>m. GeneratedImage_init (picture ''https://example.com/g.png'') (Some (JObj []))
          = Inl (PyExc ValueError m)" by blast
  from main b have 2: "\<exists>m. GeneratedImage_init (picture ''https://example.com/g.png'') (Some (JStr ''SID=abc''))
          = Inl (PyExc ValueError m)" by blast
  obtain r where r: "downloads (fst (GeneratedImage_save (web_serving []) ''20250101120000''
        generated_picture no_kwargs)) = [r]"
    by (simp add: generated_picture_saved)
  then have "r \<in> set (downloads (fst (GeneratedImage_save (web_serving []) ''20250101120000''
        generated_picture no_kwargs)))" by simp
  with main have "get_cookies r = Some (cookies generated_picture)" by blast
  with r have 3: "map get_cookies (downloads (fst (GeneratedImage_save (web_serving []) ''20250101120000''
        generated_picture no_kwargs))) = [Some (cookies generated_picture)]" by simp
  from 1 2 3 show ?thesis by (intro conjI)
qed

section \<open>Properties of the session engine\<close>




lemma send_auth_failure_unfold:
  assumes "resolve_model env name = Some model"
    and "\<not> (advanced_tier_only model \<and> \<not> advanced_eligible env)"
    and "proactive_rotation env current = (events0, creds0, k)"
    and "call1 = \<lparr>gc_prompt = prompt, gc_attachments = attachments, gc_model = model,
                   gc_state = state, gc_credentials = creds0\<rparr>"
    and "generate_fixture env 0 call1 = AuthFailure"
  shows "send env current prompt attachments name state =
     (case rotate_credentials env k creds0 of
        None \<Rightarrow> (events0 @ [Generate call1, Rotate creds0], creds0, Inl AuthError)
      | Some creds1 \<Rightarrow>
          (events0 @ [Generate call1, Rotate creds0, Generate (call1\<lparr>gc_credentials := creds1\<rparr>)],
           creds1,
           (case generate_fixture env 1 (call1\<lparr>gc_credentials := creds1\<rparr>) of
              AuthFailure \<Rightarrow> Inl AuthError
            | TransportFailure \<Rightarrow> Inl TransportError
            | Body body \<Rightarrow> decode_and_advance env body)))"
  using assms
  by (simp add: send_def Let_def split: option.splits generate_response.splits)


lemma send_bounded:
  "length (generate_calls (fst (send env current prompt attachments name state))) \<le> 2 \<and>
   rotation_attempts (fst (send env current prompt attachments name state)) \<le> 2"
  by (auto simp: send_def proactive_rotation_def Let_def
      split: option.splits generate_response.splits if_splits)

text \<open>
  A rotation that the service rejects is an \<open>AuthError\<close> of its own (sections 4.1 and 7
  of the specification): the call ends there, after its one rotation attempt.
\<close>

lemma send_rotation_rejected:
  assumes "resolve_model env name = Some model"
    and "\<not> (advanced_tier_only model \<and> \<not> advanced_eligible env)"
    and "proactive_rotation env current = (events0, creds0, k)"
    and "call1 = \<lparr>gc_prompt = prompt, gc_attachments = attachments, gc_model = model,
                   gc_state = state, gc_credentials = creds0\<rparr>"
    and "generate_fixture env 0 call1 = AuthFailure"
    and "rotate_credentials env k creds0 = None"
  shows "send env current prompt attachments name state
           = (events0 @ [Generate call1, Rotate creds0], creds0, Inl AuthError)"
  using send_auth_failure_unfold[OF assms(1-5)] assms(6) by simp

lemmas service_simps =
  rejecting_service_def logged_out_service_def flash_config_def
  old_credentials_def new_credentials_def fresh_state_def hello_call_def
  send_def proactive_rotation_def rotate_credentials_def


lemma logged_out_service_send:
  "send logged_out_service old_credentials ''hello'' [] ''gemini-2.5-flash'' fresh_state
     = ([Generate (hello_call old_credentials), Rotate old_credentials],
        old_credentials, Inl AuthError)"
  by (simp add: service_simps)


end
